theory Spec2Isabelle
  imports Main
begin

section \<open>Errors\<close>

text \<open>
  Every \<^verbatim>\<open>raise DatasetError(...)\<close> of \<^verbatim>\<open>_base_table_dataset.py\<close> is one kind below;
  the source tells them apart by message only.
\<close>

datatype dataset_error =
    InvalidFormat           \<comment> \<open>\<^verbatim>\<open>_validate_format\<close>\<close>
  | InvalidTableName        \<comment> \<open>\<^verbatim>\<open>_validate_table\<close>\<close>
  | InvalidDatabaseName     \<comment> \<open>\<^verbatim>\<open>_validate_database\<close>\<close>
  | InvalidCatalogName      \<comment> \<open>\<^verbatim>\<open>_validate_catalog\<close>\<close>
  | InvalidWriteMode        \<comment> \<open>\<^verbatim>\<open>_validate_write_mode\<close>\<close>
  | InvalidDataframeType    \<comment> \<open>\<^verbatim>\<open>_validate_dataframe_type\<close>\<close>
  | MissingPrimaryKey       \<comment> \<open>\<^verbatim>\<open>_validate_primary_key\<close>\<close>
  | SchemaDecodeError       \<comment> \<open>\<^verbatim>\<open>schema\<close>: a KeyError or ValueError of the decoder, re-raised\<close>
  | ReadOnly                \<comment> \<open>\<^verbatim>\<open>_save\<close>, \<^verbatim>\<open>write_mode is None\<close>\<close>
  | UnsupportedWriteMode    \<comment> \<open>\<^verbatim>\<open>_save\<close>, no method \<^verbatim>\<open>_save_<write_mode>\<close>\<close>

text \<open>
  What the engine raises. \<^verbatim>\<open>_exists\<close> catches \<^verbatim>\<open>(ParseException, AnalysisException)\<close>
  only; every other exception of the engine is \<open>OtherSparkError\<close>.
\<close>

datatype spark_exception = ParseException | AnalysisException | OtherSparkError

datatype error =
    DatasetError dataset_error
  | SparkException spark_exception
  | KeyError          \<comment> \<open>a column label the pandas frame does not have\<close>
  | AttributeError    \<comment> \<open>an attribute the object does not have\<close>
  | TypeError         \<comment> \<open>a dataframe of the wrong kind, an exception of the decoder that is not caught\<close>

section \<open>The naming pattern\<close>

text \<open>
  \<^verbatim>\<open>_NAMING_REGEX = r"\b[0-9a-zA-Z_-]{1,}\b"\<close>, used with \<^verbatim>\<open>re.fullmatch\<close>. The pattern is
  embedded as data and matched by a small backtracking matcher for the three constructs
  it uses: the word boundary \<^verbatim>\<open>\b\<close>, a character class and the repetition \<^verbatim>\<open>{n,}\<close>.
\<close>

definition is_digit :: "char \<Rightarrow> bool" where
  "is_digit c = (48 \<le> (of_char c :: nat) \<and> (of_char c :: nat) \<le> 57)"

definition is_upper :: "char \<Rightarrow> bool" where
  "is_upper c = (65 \<le> (of_char c :: nat) \<and> (of_char c :: nat) \<le> 90)"

definition is_lower :: "char \<Rightarrow> bool" where
  "is_lower c = (97 \<le> (of_char c :: nat) \<and> (of_char c :: nat) \<le> 122)"

text \<open>
  \<^verbatim>\<open>\w\<close> on the characters the class admits. (Python's \<^verbatim>\<open>\w\<close> also holds of letters
  outside ASCII; the class rejects all of them, so a full match never depends on them.)
\<close>

definition is_word_char :: "char \<Rightarrow> bool" where
  "is_word_char c = (is_digit c \<or> is_lower c \<or> is_upper c \<or> c = CHR ''_'')"

text \<open>The class \<^verbatim>\<open>[0-9a-zA-Z_-]\<close>.\<close>

definition naming_class :: "char \<Rightarrow> bool" where
  "naming_class c = (is_digit c \<or> is_lower c \<or> is_upper c \<or> c = CHR ''_'' \<or> c = CHR ''-'')"

datatype regex_item =
    WordBoundary                        \<comment> \<open>\<^verbatim>\<open>\b\<close>\<close>
  | ClassAtLeast "char \<Rightarrow> bool" nat      \<comment> \<open>\<^verbatim>\<open>[...]{n,}\<close>\<close>

text \<open>
  \<^verbatim>\<open>\b\<close> holds at position \<open>i\<close> when exactly one of the characters before and after
  \<open>i\<close> is a word character; the two ends of the string count as non-word.
\<close>

definition word_boundary :: "string \<Rightarrow> nat \<Rightarrow> bool" where
  "word_boundary s i =
     ((0 < i \<and> i \<le> length s \<and> is_word_char (s ! (i - 1))) \<noteq>
      (i < length s \<and> is_word_char (s ! i)))"

text \<open>
  \<open>match_from r s i\<close>: the items \<open>r\<close> match \<open>s\<close> from position \<open>i\<close> to its very end
  (\<^verbatim>\<open>fullmatch\<close>). The repetition tries every admissible length.
\<close>

fun match_from :: "regex_item list \<Rightarrow> string \<Rightarrow> nat \<Rightarrow> bool" where
  "match_from [] s i = (i = length s)"
| "match_from (WordBoundary # r) s i = (word_boundary s i \<and> match_from r s i)"
| "match_from (ClassAtLeast p n # r) s i =
     list_ex (\<lambda>k. list_all p (take k (drop i s)) \<and> match_from r s (i + k))
       [n ..< Suc (length s - i)]"

definition fullmatch :: "regex_item list \<Rightarrow> string \<Rightarrow> bool" where
  "fullmatch r s = match_from r s 0"

definition NAMING_REGEX :: "regex_item list" where
  "NAMING_REGEX = [WordBoundary, ClassAtLeast naming_class 1, WordBoundary]"

definition VALID_WRITE_MODES :: "string list" where
  "VALID_WRITE_MODES = [''overwrite'', ''append'']"

definition VALID_DATAFRAME_TYPES :: "string list" where
  "VALID_DATAFRAME_TYPES = [''spark'', ''pandas'']"

definition VALID_FORMATS :: "string list" where
  "VALID_FORMATS = [''delta'', ''parquet'', ''csv'']"

section \<open>The table descriptor\<close>

text \<open>\<^verbatim>\<open>partition_columns: str | list[str] | None\<close>.\<close>

datatype partition_spec = NoPartition | PartitionColumn string | PartitionColumns "string list"

text \<open>
  The dataclass \<^verbatim>\<open>BaseTable\<close>. \<open>'j\<close> is the type of the JSON schema dictionary, which
  only the decoder \<^verbatim>\<open>StructType.fromJson\<close> of the engine's library looks into.
\<close>

record 'j BaseTable =
  format :: string
  database :: string
  catalog :: "string option"
  table :: string
  write_mode :: "string option"
  dataframe_type :: string
  owner_group :: "string option"
  partition_columns :: partition_spec
  json_schema :: "'j option"

text \<open>
  The keys of \<^verbatim>\<open>__dataclass_fields__\<close>, in declaration order: the class variables are
  listed there as pseudo-fields, before the fields proper.
\<close>

definition dataclass_fields :: "string list" where
  "dataclass_fields =
     [''_NAMING_REGEX'', ''_VALID_WRITE_MODES'', ''_VALID_DATAFRAME_TYPES'', ''_VALID_FORMATS'',
      ''format'', ''database'', ''catalog'', ''table'', ''write_mode'', ''dataframe_type'',
      ''owner_group'', ''partition_columns'', ''json_schema'']"

datatype validator =
    Validate_format
  | Validate_table
  | Validate_database
  | Validate_catalog
  | Validate_write_mode
  | Validate_dataframe_type
  | Validate_primary_key

text \<open>\<^verbatim>\<open>getattr(self, f"_validate_{name}", None)\<close>: the methods the class defines.\<close>

definition validate_method :: "string \<Rightarrow> validator option" where
  "validate_method name =
     map_of
       [(''format'', Validate_format),
        (''table'', Validate_table),
        (''database'', Validate_database),
        (''catalog'', Validate_catalog),
        (''write_mode'', Validate_write_mode),
        (''dataframe_type'', Validate_dataframe_type),
        (''primary_key'', Validate_primary_key)] name"

definition validate_format :: "'j BaseTable \<Rightarrow> error + unit" where
  "validate_format t =
     (if format t \<notin> set VALID_FORMATS then Inl (DatasetError InvalidFormat) else Inr ())"

definition validate_table :: "'j BaseTable \<Rightarrow> error + unit" where
  "validate_table t =
     (if \<not> fullmatch NAMING_REGEX (table t) then Inl (DatasetError InvalidTableName)
      else Inr ())"

definition validate_database :: "'j BaseTable \<Rightarrow> error + unit" where
  "validate_database t =
     (if \<not> fullmatch NAMING_REGEX (database t) then Inl (DatasetError InvalidDatabaseName)
      else Inr ())"

text \<open>\<^verbatim>\<open>if self.catalog:\<close> is false of \<^verbatim>\<open>None\<close> and of the empty string.\<close>

definition truthy :: "string option \<Rightarrow> bool" where
  "truthy x = (case x of None \<Rightarrow> False | Some s \<Rightarrow> s \<noteq> [])"

definition validate_catalog :: "'j BaseTable \<Rightarrow> error + unit" where
  "validate_catalog t =
     (case catalog t of
        None \<Rightarrow> Inr ()
      | Some c \<Rightarrow>
          if c \<noteq> [] then
            (if \<not> fullmatch NAMING_REGEX c then Inl (DatasetError InvalidCatalogName)
             else Inr ())
          else Inr ())"

definition validate_write_mode :: "'j BaseTable \<Rightarrow> error + unit" where
  "validate_write_mode t =
     (case write_mode t of
        None \<Rightarrow> Inr ()
      | Some m \<Rightarrow>
          if m \<notin> set VALID_WRITE_MODES then Inl (DatasetError InvalidWriteMode)
          else Inr ())"

definition validate_dataframe_type :: "'j BaseTable \<Rightarrow> error + unit" where
  "validate_dataframe_type t =
     (if dataframe_type t \<notin> set VALID_DATAFRAME_TYPES
      then Inl (DatasetError InvalidDataframeType) else Inr ())"

text \<open>
  \<^verbatim>\<open>_validate_primary_key\<close> reads \<^verbatim>\<open>self.primary_key\<close>, which \<^verbatim>\<open>BaseTable\<close> does not
  declare: on a \<^verbatim>\<open>BaseTable\<close> the read raises.
\<close>

definition validate_primary_key :: "'j BaseTable \<Rightarrow> error + unit" where
  "validate_primary_key t = Inl AttributeError"

fun call_validator :: "validator \<Rightarrow> 'j BaseTable \<Rightarrow> error + unit" where
  "call_validator Validate_format t = validate_format t"
| "call_validator Validate_table t = validate_table t"
| "call_validator Validate_database t = validate_database t"
| "call_validator Validate_catalog t = validate_catalog t"
| "call_validator Validate_write_mode t = validate_write_mode t"
| "call_validator Validate_dataframe_type t = validate_dataframe_type t"
| "call_validator Validate_primary_key t = validate_primary_key t"

text \<open>
  The loop of \<^verbatim>\<open>__post_init__\<close> over the field names. The first component of the result
  lists the validators that were called, in call order; the second is \<open>Inl\<close> the
  exception that ended the loop, or \<open>Inr ()\<close>.
\<close>

fun run_validators :: "string list \<Rightarrow> 'j BaseTable \<Rightarrow> validator list \<times> (error + unit)" where
  "run_validators [] t = ([], Inr ())"
| "run_validators (name # names) t =
     (case validate_method name of
        None \<Rightarrow> run_validators names t
      | Some m \<Rightarrow>
          (case call_validator m t of
             Inl e \<Rightarrow> ([m], Inl e)
           | Inr _ \<Rightarrow> (case run_validators names t of (ms, r) \<Rightarrow> (m # ms, r))))"

definition post_init :: "'j BaseTable \<Rightarrow> validator list \<times> (error + unit)" where
  "post_init t = run_validators dataclass_fields t"

text \<open>
  Construction: the generated \<^verbatim>\<open>__init__\<close> stores the field values and calls
  \<^verbatim>\<open>__post_init__\<close>; an exception there leaves the caller without an object.
\<close>

definition BaseTable_init :: "'j BaseTable \<Rightarrow> error + 'j BaseTable" where
  "BaseTable_init t = (case snd (post_init t) of Inl e \<Rightarrow> Inl e | Inr _ \<Rightarrow> Inr t)"

definition backquote :: "string \<Rightarrow> string" where
  "backquote s = [CHR 0x60] @ s @ [CHR 0x60]"

definition full_table_location :: "'j BaseTable \<Rightarrow> string option" where
  "full_table_location t =
     (if truthy (catalog t) \<and> database t \<noteq> [] \<and> table t \<noteq> [] then
        Some (backquote (the (catalog t)) @ ''.'' @ backquote (database t) @ ''.''
              @ backquote (table t))
      else if database t \<noteq> [] \<and> table t \<noteq> [] then
        Some (backquote (database t) @ ''.'' @ backquote (table t))
      else None)"

text \<open>
  What \<^verbatim>\<open>StructType.fromJson\<close> may raise. The decoder belongs to the engine's library
  and is a parameter of the model.
\<close>

datatype decode_error = JsonKeyError | JsonValueError | JsonOtherError

datatype struct_field = StructField (field_name: string) (field_type: string) (nullable: bool)

type_synonym struct_type = "struct_field list"

definition fieldNames :: "struct_type \<Rightarrow> string list" where
  "fieldNames st = map field_name st"

text \<open>
  \<^verbatim>\<open>schema\<close>: a \<^verbatim>\<open>KeyError\<close> or \<^verbatim>\<open>ValueError\<close> of the decoder becomes a
  \<^verbatim>\<open>DatasetError\<close>; any other exception is not caught.
\<close>

definition schema :: "('j \<Rightarrow> decode_error + struct_type) \<Rightarrow> 'j BaseTable \<Rightarrow> error + struct_type option" where
  "schema fromJson t =
     (case json_schema t of
        None \<Rightarrow> Inr None
      | Some js \<Rightarrow>
          (case fromJson js of
             Inl JsonKeyError \<Rightarrow> Inl (DatasetError SchemaDecodeError)
           | Inl JsonValueError \<Rightarrow> Inl (DatasetError SchemaDecodeError)
           | Inl JsonOtherError \<Rightarrow> Inl TypeError
           | Inr st \<Rightarrow> Inr (Some st)))"

section \<open>Dataframes and the engine\<close>

text \<open>
  A dataframe is its ordered, named columns; \<open>'v\<close> is the content of a column, which
  the dataset never inspects. The tag tells the engine's dataframe from the local
  (pandas) one. What the libraries make of a dataframe (selecting columns, building an
  engine dataframe) is not fixed here: those operations are fields of the engine below.
\<close>

type_synonym 'v frame = "(string \<times> 'v) list"

datatype 'v dataframe = SparkDF "'v frame" | PandasDF "'v frame"

text \<open>A row of \<^verbatim>\<open>SHOW TABLES\<close>.\<close>

datatype table_row = TableRow (row_database: string) (tableName: string) (isTemporary: bool)

text \<open>
  \<^verbatim>\<open>data.write.format(f).mode(m).option(k, v).saveAsTable(name)\<close>: the format, the mode
  when one was set, the options, the table name and the dataframe written.
\<close>

datatype 'v write_request =
  WriteRequest (wr_format: string) (wr_mode: "string option")
    (wr_options: "(string \<times> string) list") (wr_name: string) (wr_data: "'v frame")

text \<open>
  The session \<^verbatim>\<open>_get_spark()\<close> returns and the two dataframe libraries, none of which
  is part of the module. An operation of the session takes the engine's state \<open>'s\<close>
  (tables, the active catalog) and returns its result, or the exception it raises, with
  the state it leaves. \<open>spark_select\<close> is \<^verbatim>\<open>DataFrame.select\<close> and \<open>pandas_loc\<close> is
  \<^verbatim>\<open>DataFrame.loc[:, cols]\<close>, whose only failure here is a \<^verbatim>\<open>KeyError\<close> (\<open>None\<close>).
  When they fail and what they return is for the engine to say: the model assumes nothing
  about it.
\<close>

record ('s, 'v) spark =
  spark_sql :: "string \<Rightarrow> 's \<Rightarrow> (spark_exception + table_row list) \<times> 's"
  spark_table :: "string option \<Rightarrow> 's \<Rightarrow> (spark_exception + 'v frame) \<times> 's"
  spark_saveAsTable :: "'v write_request \<Rightarrow> 's \<Rightarrow> (spark_exception + unit) \<times> 's"
  spark_createDataFrame ::
    "'v frame \<Rightarrow> struct_type option \<Rightarrow> 's \<Rightarrow> (spark_exception + 'v frame) \<times> 's"
  spark_select :: "string list \<Rightarrow> 'v frame \<Rightarrow> spark_exception + 'v frame"
  pandas_loc :: "string list \<Rightarrow> 'v frame \<Rightarrow> 'v frame option"

datatype 'v spark_call =
    Sql string
  | Table "string option"
  | CreateDataFrame "'v frame" "struct_type option"
  | SaveAsTable "'v write_request"
  | ToPandas

text \<open>The two \<^verbatim>\<open>logger.warning\<close> calls of \<^verbatim>\<open>_exists\<close>.\<close>

datatype warning =
    CatalogNotFound string spark_exception
  | FindTableError spark_exception

text \<open>
  What a method of the dataset runs in: the engine's state, the calls made to the engine
  so far (oldest first) and the warnings logged so far.
\<close>

record ('s, 'v) session =
  engine_state :: 's
  calls :: "'v spark_call list"
  warnings :: "warning list"

definition call_sql ::
  "('s, 'v) spark \<Rightarrow> string \<Rightarrow> ('s, 'v) session \<Rightarrow>
     (spark_exception + table_row list) \<times> ('s, 'v) session" where
  "call_sql eng q w =
     (case spark_sql eng q (engine_state w) of
        (r, s') \<Rightarrow> (r, w\<lparr>engine_state := s', calls := calls w @ [Sql q]\<rparr>))"


definition call_saveAsTable ::
  "('s, 'v) spark \<Rightarrow> 'v write_request \<Rightarrow> ('s, 'v) session \<Rightarrow>
     (error + unit) \<times> ('s, 'v) session" where
  "call_saveAsTable eng req w =
     (case spark_saveAsTable eng req (engine_state w) of
        (r, s') \<Rightarrow>
          (case r of Inl e \<Rightarrow> Inl (SparkException e) | Inr u \<Rightarrow> Inr u,
           w\<lparr>engine_state := s', calls := calls w @ [SaveAsTable req]\<rparr>))"

text \<open>\<^verbatim>\<open>data.select(*cols)\<close> of an engine dataframe; a pandas frame has no such method.\<close>

definition select ::
  "('s, 'v) spark \<Rightarrow> string list \<Rightarrow> 'v dataframe \<Rightarrow> error + 'v dataframe" where
  "select eng cols data =
     (case data of
        PandasDF _ \<Rightarrow> Inl AttributeError
      | SparkDF fr \<Rightarrow>
          (case spark_select eng cols fr of
             Inl e \<Rightarrow> Inl (SparkException e)
           | Inr selected \<Rightarrow> Inr (SparkDF selected)))"

text \<open>\<^verbatim>\<open>data.loc[:, cols]\<close> of a pandas frame; an engine dataframe has no such attribute.\<close>

definition loc ::
  "('s, 'v) spark \<Rightarrow> string list \<Rightarrow> 'v dataframe \<Rightarrow> error + 'v dataframe" where
  "loc eng cols data =
     (case data of
        SparkDF _ \<Rightarrow> Inl AttributeError
      | PandasDF fr \<Rightarrow>
          (case pandas_loc eng cols fr of
             None \<Rightarrow> Inl KeyError
           | Some selected \<Rightarrow> Inr (PandasDF selected)))"

text \<open>
  \<^verbatim>\<open>_get_spark().createDataFrame(pdf, schema=...)\<close>: the session is asked for the engine
  dataframe of a pandas frame, and the call is recorded. An engine dataframe is refused
  by the session before anything is done.
\<close>

definition createDataFrame ::
  "('s, 'v) spark \<Rightarrow> 'v dataframe \<Rightarrow> struct_type option \<Rightarrow> ('s, 'v) session \<Rightarrow>
     (error + 'v dataframe) \<times> ('s, 'v) session" where
  "createDataFrame eng data sch w =
     (case data of
        SparkDF _ \<Rightarrow> (Inl TypeError, w)
      | PandasDF fr \<Rightarrow>
          (case spark_createDataFrame eng fr sch (engine_state w) of
             (r, s') \<Rightarrow>
               (case r of Inl e \<Rightarrow> Inl (SparkException e) | Inr built \<Rightarrow> Inr (SparkDF built),
                w\<lparr>engine_state := s', calls := calls w @ [CreateDataFrame fr sch]\<rparr>)))"

section \<open>The dataset\<close>

text \<open>A value of the description: \<^verbatim>\<open>None\<close>, a string, a list of strings, or anything else.\<close>

datatype 'a pyvalue = PyNone | PyStr string | PyList "string list" | PyObject 'a

record ('j, 'a) BaseTableDataset =
  the_table :: "'j BaseTable"                    \<comment> \<open>\<^verbatim>\<open>self._table\<close>\<close>
  metadata :: "(string \<rightharpoonup> 'a pyvalue) option"
  kwargs :: "string \<rightharpoonup> 'a pyvalue"

text \<open>
  \<^verbatim>\<open>__init__\<close>. \<^verbatim>\<open>_create_table\<close> is the hook a subclass fills in (in the base class it
  raises \<^verbatim>\<open>NotImplementedError\<close>); it is the parameter \<open>create_table\<close>, applied to the
  arguments \<open>args\<close> it is given.
\<close>

definition BaseTableDataset_init ::
  "('r \<Rightarrow> error + 'j BaseTable) \<Rightarrow> 'r \<Rightarrow> (string \<rightharpoonup> 'a pyvalue) option \<Rightarrow>
     (string \<rightharpoonup> 'a pyvalue) \<Rightarrow> error + ('j, 'a) BaseTableDataset" where
  "BaseTableDataset_init create_table args md kw =
     (case create_table args of
        Inl e \<Rightarrow> Inl e
      | Inr t \<Rightarrow> Inr \<lparr>the_table = t, metadata = md, kwargs = kw\<rparr>)"


text \<open>\<^verbatim>\<open>full_table_location() or ""\<close>.\<close>

definition location_or_empty :: "'j BaseTable \<Rightarrow> string" where
  "location_or_empty t = (case full_table_location t of None \<Rightarrow> [] | Some l \<Rightarrow> l)"

text \<open>The handlers read \<^verbatim>\<open>data.write\<close>, which a pandas frame does not have.\<close>

definition save_append ::
  "('s, 'v) spark \<Rightarrow> ('j, 'a) BaseTableDataset \<Rightarrow> 'v dataframe \<Rightarrow> ('s, 'v) session \<Rightarrow>
     (error + unit) \<times> ('s, 'v) session" where
  "save_append eng ds data w =
     (case data of
        PandasDF _ \<Rightarrow> (Inl AttributeError, w)
      | SparkDF fr \<Rightarrow>
          call_saveAsTable eng
            (WriteRequest (format (the_table ds)) (Some ''append'') []
               (location_or_empty (the_table ds)) fr) w)"

definition save_overwrite ::
  "('s, 'v) spark \<Rightarrow> ('j, 'a) BaseTableDataset \<Rightarrow> 'v dataframe \<Rightarrow> ('s, 'v) session \<Rightarrow>
     (error + unit) \<times> ('s, 'v) session" where
  "save_overwrite eng ds data w =
     (case data of
        PandasDF _ \<Rightarrow> (Inl AttributeError, w)
      | SparkDF fr \<Rightarrow>
          call_saveAsTable eng
            (if write_mode (the_table ds) = Some ''overwrite''
             then WriteRequest (format (the_table ds)) (Some ''overwrite'')
                    [(''overwriteSchema'', ''true'')] (location_or_empty (the_table ds)) fr
             else WriteRequest (format (the_table ds)) None []
                    (location_or_empty (the_table ds)) fr) w)"

datatype save_handler = Save_append | Save_overwrite

text \<open>\<^verbatim>\<open>getattr(self, f"_save_{write_mode}", None)\<close>: the handlers the class defines.\<close>

definition save_method :: "string \<Rightarrow> save_handler option" where
  "save_method m = map_of [(''append'', Save_append), (''overwrite'', Save_overwrite)] m"

fun call_save_method ::
  "save_handler \<Rightarrow> ('s, 'v) spark \<Rightarrow> ('j, 'a) BaseTableDataset \<Rightarrow> 'v dataframe \<Rightarrow>
     ('s, 'v) session \<Rightarrow> (error + unit) \<times> ('s, 'v) session" where
  "call_save_method Save_append eng ds data w = save_append eng ds data w"
| "call_save_method Save_overwrite eng ds data w = save_overwrite eng ds data w"

text \<open>
  Lines 288 to 299 of \<^verbatim>\<open>_save\<close>: the data is matched to the schema. \<^verbatim>\<open>if schema:\<close> is
  false of \<^verbatim>\<open>None\<close> and of a schema with no field. On the pandas path the columns are
  selected first and \<^verbatim>\<open>schema()\<close> is decoded a second time for \<^verbatim>\<open>createDataFrame\<close>.
\<close>

definition match_schema ::
  "('j \<Rightarrow> decode_error + struct_type) \<Rightarrow> ('s, 'v) spark \<Rightarrow> ('j, 'a) BaseTableDataset \<Rightarrow>
     struct_type option \<Rightarrow> 'v dataframe \<Rightarrow> ('s, 'v) session \<Rightarrow>
     (error + 'v dataframe) \<times> ('s, 'v) session" where
  "match_schema fromJson eng ds sch data w =
     (if sch \<noteq> None \<and> the sch \<noteq> [] then
        (if dataframe_type (the_table ds) = ''pandas'' then
           (case loc eng (fieldNames (the sch)) data of
              Inl e \<Rightarrow> (Inl e, w)
            | Inr selected \<Rightarrow>
                (case schema fromJson (the_table ds) of
                   Inl e \<Rightarrow> (Inl e, w)
                 | Inr sch2 \<Rightarrow> createDataFrame eng selected sch2 w))
         else
           (case select eng (fieldNames (the sch)) data of
              Inl e \<Rightarrow> (Inl e, w)
            | Inr selected \<Rightarrow> (Inr selected, w)))
      else if dataframe_type (the_table ds) = ''pandas'' then createDataFrame eng data None w
      else (Inr data, w))"

definition save ::
  "('j \<Rightarrow> decode_error + struct_type) \<Rightarrow> ('s, 'v) spark \<Rightarrow> ('j, 'a) BaseTableDataset \<Rightarrow>
     'v dataframe \<Rightarrow> ('s, 'v) session \<Rightarrow> (error + unit) \<times> ('s, 'v) session" where
  "save fromJson eng ds data w =
     (case write_mode (the_table ds) of
        None \<Rightarrow> (Inl (DatasetError ReadOnly), w)
      | Some m \<Rightarrow>
          (case schema fromJson (the_table ds) of
             Inl e \<Rightarrow> (Inl e, w)
           | Inr sch \<Rightarrow>
               (case match_schema fromJson eng ds sch data w of
                  (Inl e, w1) \<Rightarrow> (Inl e, w1)
                | (Inr data1, w1) \<Rightarrow>
                    (case save_method m of
                       None \<Rightarrow> (Inl (DatasetError UnsupportedWriteMode), w1)
                     | Some h \<Rightarrow> call_save_method h eng ds data1 w1))))"

definition optional_str :: "string option \<Rightarrow> 'a pyvalue" where
  "optional_str x = (case x of None \<Rightarrow> PyNone | Some s \<Rightarrow> PyStr s)"

definition partition_value :: "partition_spec \<Rightarrow> 'a pyvalue" where
  "partition_value p =
     (case p of NoPartition \<Rightarrow> PyNone | PartitionColumn c \<Rightarrow> PyStr c
      | PartitionColumns cs \<Rightarrow> PyList cs)"

text \<open>
  \<^verbatim>\<open>_describe\<close>: the dictionary display lists the seven fixed keys and then unpacks
  \<^verbatim>\<open>**self.kwargs\<close>, so a key of \<^verbatim>\<open>kwargs\<close> overrides a fixed one.
\<close>

definition describe :: "('j, 'a) BaseTableDataset \<Rightarrow> (string \<rightharpoonup> 'a pyvalue)" where
  "describe ds =
     map_of
       [(''catalog'', optional_str (catalog (the_table ds))),
        (''database'', PyStr (database (the_table ds))),
        (''table'', PyStr (table (the_table ds))),
        (''write_mode'', optional_str (write_mode (the_table ds))),
        (''dataframe_type'', PyStr (dataframe_type (the_table ds))),
        (''owner_group'', optional_str (owner_group (the_table ds))),
        (''partition_columns'', partition_value (partition_columns (the_table ds)))]
     ++ kwargs ds"

definition caught :: "spark_exception \<Rightarrow> bool" where
  "caught e = (e = ParseException \<or> e = AnalysisException)"

text \<open>
  Lines 360 to 368 of \<^verbatim>\<open>_exists\<close>: with a catalog set, \<^verbatim>\<open>USE CATALOG\<close> is run; a parse
  or analysis error is logged and the method goes on; any other exception leaves it.
\<close>

definition use_catalog ::
  "('s, 'v) spark \<Rightarrow> ('j, 'a) BaseTableDataset \<Rightarrow> ('s, 'v) session \<Rightarrow>
     (error + unit) \<times> ('s, 'v) session" where
  "use_catalog eng ds w =
     (if truthy (catalog (the_table ds)) then
        (case call_sql eng (''USE CATALOG '' @ backquote (the (catalog (the_table ds)))) w of
           (Inl e, w1) \<Rightarrow>
             if caught e
             then (Inr (),
                   w1\<lparr>warnings := warnings w1 @ [CatalogNotFound (the (catalog (the_table ds))) e]\<rparr>)
             else (Inl (SparkException e), w1)
         | (Inr _, w1) \<Rightarrow> (Inr (), w1))
      else (Inr (), w))"

text \<open>
  \<^verbatim>\<open>_exists\<close>. The query, its \<^verbatim>\<open>filter\<close> on \<^verbatim>\<open>tableName\<close> and the \<^verbatim>\<open>count\<close> stand in
  one \<^verbatim>\<open>try\<close>: the engine's answer is the listing's rows or the exception raised.
\<close>

definition exists ::
  "('s, 'v) spark \<Rightarrow> ('j, 'a) BaseTableDataset \<Rightarrow> ('s, 'v) session \<Rightarrow>
     (error + bool) \<times> ('s, 'v) session" where
  "exists eng ds w =
     (case use_catalog eng ds w of
        (Inl e, w1) \<Rightarrow> (Inl e, w1)
      | (Inr _, w1) \<Rightarrow>
          (case call_sql eng (''SHOW TABLES IN '' @ backquote (database (the_table ds))) w1 of
             (Inl e, w2) \<Rightarrow>
               if caught e
               then (Inr False, w2\<lparr>warnings := warnings w2 @ [FindTableError e]\<rparr>)
               else (Inl (SparkException e), w2)
           | (Inr rows, w2) \<Rightarrow>
               (Inr (0 < length (filter (\<lambda>r. tableName r = table (the_table ds)) rows)), w2)))"

section \<open>Auxiliary notions for the properties\<close>

text \<open>
  What the naming pattern accepts, said without the pattern: a non-empty string over the
  class whose first and last characters are not hyphens.
\<close>

definition conforms_to_naming :: "string \<Rightarrow> bool" where
  "conforms_to_naming s =
     (s \<noteq> [] \<and> list_all naming_class s \<and> hd s \<noteq> CHR ''-'' \<and> last s \<noteq> CHR ''-'')"

text \<open>
  The naming rule in the specification's words: one or more word characters or hyphens,
  as a single token.
\<close>

definition spec_word_chars_and_hyphens :: "string \<Rightarrow> bool" where
  "spec_word_chars_and_hyphens s = (s \<noteq> [] \<and> list_all (\<lambda>c. is_word_char c \<or> c = CHR ''-'') s)"

text \<open>The validators \<^verbatim>\<open>__post_init__\<close> finds, in the order of the fields.\<close>

definition field_validators :: "validator list" where
  "field_validators = List.map_filter validate_method dataclass_fields"

definition fails :: "'j BaseTable \<Rightarrow> validator \<Rightarrow> bool" where
  "fails t m = isl (call_validator m t)"

text \<open>A descriptor every validator accepts.\<close>

definition example_table :: "struct_type BaseTable" where
  "example_table =
     \<lparr>format = ''delta'', database = ''d'', catalog = Some ''c'', table = ''t'',
      write_mode = Some ''overwrite'', dataframe_type = ''spark'', owner_group = None,
      partition_columns = NoPartition, json_schema = None\<rparr>"

text \<open>The keys \<^verbatim>\<open>_describe\<close> always lists.\<close>

definition fixed_keys :: "string set" where
  "fixed_keys =
     {''catalog'', ''database'', ''table'', ''write_mode'', ''dataframe_type'', ''owner_group'',
      ''partition_columns''}"

text \<open>A dataset over a descriptor, with no metadata and no further options.\<close>

definition dataset_of :: "'j BaseTable \<Rightarrow> ('j, unit) BaseTableDataset" where
  "dataset_of t = \<lparr>the_table = t, metadata = None, kwargs = Map.empty\<rparr>"

text \<open>A decoder for schemas that are given decoded.\<close>

definition decoded :: "struct_type \<Rightarrow> decode_error + struct_type" where
  "decoded st = Inr st"

text \<open>
  Dataframe operations for the examples. They answer only on frames whose column names
  are distinct and made of lower-case letters, where selecting by name has one meaning,
  and raise everywhere else; an engine dataframe is built only from a frame with at least
  one column and, with a schema, only when the widths agree and every field is a
  \<^verbatim>\<open>long\<close>.
\<close>

definition plain_frame :: "'v frame \<Rightarrow> bool" where
  "plain_frame fr =
     (distinct (map fst fr) \<and> list_all (\<lambda>n. n \<noteq> [] \<and> list_all is_lower n) (map fst fr))"

definition by_name :: "string list \<Rightarrow> 'v frame \<Rightarrow> 'v frame option" where
  "by_name cols fr =
     (if plain_frame fr \<and> list_all (\<lambda>c. c \<in> set (map fst fr)) cols
      then Some (map (\<lambda>c. (c, the (map_of fr c))) cols) else None)"

definition example_select :: "string list \<Rightarrow> nat frame \<Rightarrow> spark_exception + nat frame" where
  "example_select cols fr =
     (case by_name cols fr of None \<Rightarrow> Inl AnalysisException | Some selected \<Rightarrow> Inr selected)"

definition example_createDataFrame ::
  "nat frame \<Rightarrow> struct_type option \<Rightarrow> unit \<Rightarrow> (spark_exception + nat frame) \<times> unit" where
  "example_createDataFrame fr sch s =
     (if fr = [] then Inl OtherSparkError
      else
        (case sch of
           None \<Rightarrow> Inr fr
         | Some st \<Rightarrow>
             if length st = length fr \<and> list_all (\<lambda>f. field_type f = ''long'') st
             then Inr (zip (fieldNames st) (map snd fr)) else Inl OtherSparkError),
      s)"

text \<open>
  Three engines without state. The first accepts every write and has nothing stored. The
  second has no catalogs (\<^verbatim>\<open>USE CATALOG\<close> is an analysis error) and lists one table
  \<open>t\<close> in the database \<open>d\<close>, whose content is the column \<open>a\<close>. The third raises an
  exception that is neither a parse nor an analysis error on every call.
\<close>

definition idle_engine :: "(unit, nat) spark" where
  "idle_engine =
     \<lparr>spark_sql = (\<lambda>q s. (Inr [], s)),
      spark_table = (\<lambda>name s. (Inr [], s)),
      spark_saveAsTable = (\<lambda>req s. (Inr (), s)),
      spark_createDataFrame = example_createDataFrame,
      spark_select = example_select,
      pandas_loc = by_name\<rparr>"

definition listing_engine :: "(unit, nat) spark" where
  "listing_engine =
     \<lparr>spark_sql = (\<lambda>q s.
        (if q = ''SHOW TABLES IN '' @ backquote ''d'' then Inr [TableRow ''d'' ''t'' False]
         else Inl AnalysisException, s)),
      spark_table = (\<lambda>name s. (Inr [(''a'', 1)], s)),
      spark_saveAsTable = (\<lambda>req s. (Inr (), s)),
      spark_createDataFrame = example_createDataFrame,
      spark_select = example_select,
      pandas_loc = by_name\<rparr>"

definition failing_engine :: "(unit, nat) spark" where
  "failing_engine =
     \<lparr>spark_sql = (\<lambda>q s. (Inl OtherSparkError, s)),
      spark_table = (\<lambda>name s. (Inl OtherSparkError, s)),
      spark_saveAsTable = (\<lambda>req s. (Inl OtherSparkError, s)),
      spark_createDataFrame = (\<lambda>fr sch s. (Inl OtherSparkError, s)),
      spark_select = (\<lambda>cols fr. Inl OtherSparkError),
      pandas_loc = (\<lambda>cols fr. None)\<rparr>"

definition empty_session :: "(unit, nat) session" where
  "empty_session = \<lparr>engine_state = (), calls = [], warnings = []\<rparr>"

text \<open>A decoded schema with the fields \<open>a\<close> and \<open>b\<close>.\<close>

definition example_schema :: struct_type where
  "example_schema = [StructField ''a'' ''long'' True, StructField ''b'' ''long'' True]"

section \<open>Properties of the descriptor\<close>

lemma dash_not_word: "\<not> is_word_char CHR ''-''"
  by (simp add: is_word_char_def is_digit_def is_lower_def is_upper_def)

lemma naming_class_word: "naming_class c \<Longrightarrow> is_word_char c = (c \<noteq> CHR ''-'')"
  using dash_not_word by (auto simp: naming_class_def is_word_char_def)

lemma match_end: "match_from [WordBoundary] s k = (k = length s \<and> word_boundary s k)"
  by auto

lemma fullmatch_naming: "fullmatch NAMING_REGEX s = conforms_to_naming s"
proof (cases "s = []")
  case True
  then show ?thesis
    by (simp add: fullmatch_def NAMING_REGEX_def conforms_to_naming_def word_boundary_def)
next
  case False
  then have len: "0 < length s" by simp
  have rep: "match_from [ClassAtLeast naming_class 1, WordBoundary] s 0 =
      (list_all naming_class s \<and> word_boundary s (length s))"
  proof -
    have "match_from [ClassAtLeast naming_class 1, WordBoundary] s 0 =
        (\<exists>k\<in>{1..<Suc (length s)}. list_all naming_class (take k s) \<and> k = length s \<and> word_boundary s k)"
      by (simp add: list_ex_iff del: upt_Suc)
    also have "\<dots> = (list_all naming_class s \<and> word_boundary s (length s))"
      using len by (cases s) auto
    finally show ?thesis .
  qed
  have first: "word_boundary s 0 = is_word_char (hd s)"
    using False by (simp add: word_boundary_def hd_conv_nth)
  have lst: "word_boundary s (length s) = is_word_char (last s)"
    using False by (simp add: word_boundary_def last_conv_nth)
  have "fullmatch NAMING_REGEX s =
      (is_word_char (hd s) \<and> list_all naming_class s \<and> is_word_char (last s))"
    using rep first lst by (simp add: fullmatch_def NAMING_REGEX_def)
  moreover have "list_all naming_class s \<Longrightarrow> naming_class (hd s) \<and> naming_class (last s)"
    using False by (simp add: list_all_iff)
  ultimately show ?thesis
    using False naming_class_word by (auto simp: conforms_to_naming_def)
qed

lemma field_validators_eq:
  "field_validators =
     [Validate_format, Validate_database, Validate_catalog, Validate_table,
      Validate_write_mode, Validate_dataframe_type]"
  by (simp add: field_validators_def dataclass_fields_def validate_method_def List.map_filter_simps)

lemma run_validators_find:
  "run_validators names t =
     (let ms = List.map_filter validate_method names in
      (takeWhile (\<lambda>m. \<not> fails t m) ms @ take 1 (dropWhile (\<lambda>m. \<not> fails t m) ms),
       case find (fails t) ms of None \<Rightarrow> Inr () | Some m \<Rightarrow> call_validator m t))"
proof (induction names)
  case Nil
  then show ?case by (simp add: List.map_filter_simps)
next
  case (Cons name names)
  show ?case
  proof (cases "validate_method name")
    case None
    then show ?thesis using Cons by (simp add: List.map_filter_simps)
  next
    case (Some m)
    show ?thesis
    proof (cases "call_validator m t")
      case (Inl e)
      then show ?thesis using Some by (simp add: List.map_filter_simps fails_def)
    next
      case (Inr u)
      then show ?thesis using Some Cons
        by (simp add: List.map_filter_simps fails_def Let_def split: prod.splits)
    qed
  qed
qed

lemma post_init_find:
  "post_init t =
     (takeWhile (\<lambda>m. \<not> fails t m) field_validators
        @ take 1 (dropWhile (\<lambda>m. \<not> fails t m) field_validators),
      case find (fails t) field_validators of None \<Rightarrow> Inr () | Some m \<Rightarrow> call_validator m t)"
  by (simp add: post_init_def run_validators_find field_validators_def Let_def)

lemma BaseTable_init_find:
  "BaseTable_init t =
     (case find (fails t) field_validators of
        None \<Rightarrow> Inr t
      | Some m \<Rightarrow> Inl (projl (call_validator m t)))"
proof (cases "find (fails t) field_validators")
  case None
  then show ?thesis by (simp add: BaseTable_init_def post_init_find)
next
  case (Some m)
  then have "fails t m" by (auto simp: find_Some_iff)
  then obtain e where "call_validator m t = Inl e"
    by (cases "call_validator m t") (auto simp: fails_def)
  then show ?thesis using Some by (simp add: BaseTable_init_def post_init_find)
qed

lemma isl_unit: "isl (x :: 'a + unit) = (x \<noteq> Inr ())"
  by (cases x) auto

lemma BaseTable_init_Inr_iff:
  "(BaseTable_init t = Inr t') =
     (t' = t \<and> validate_format t = Inr () \<and> validate_database t = Inr () \<and>
      validate_catalog t = Inr () \<and> validate_table t = Inr () \<and>
      validate_write_mode t = Inr () \<and> validate_dataframe_type t = Inr ())"
  by (auto simp: BaseTable_init_find field_validators_eq fails_def isl_unit split: if_splits)

lemmas char_class_defs =
  is_word_char_def naming_class_def is_digit_def is_lower_def is_upper_def

lemmas validate_defs =
  validate_format_def validate_table_def validate_database_def validate_catalog_def
  validate_write_mode_def validate_dataframe_type_def validate_primary_key_def
  VALID_FORMATS_def VALID_WRITE_MODES_def VALID_DATAFRAME_TYPES_def

lemma dot_space_not_in_class: "\<not> naming_class CHR ''.''" "\<not> naming_class CHR '' ''"
  by (simp_all add: char_class_defs)

lemma conforms_rejects: "s = [] \<or> CHR ''.'' \<in> set s \<or> CHR '' '' \<in> set s \<Longrightarrow> \<not> conforms_to_naming s"
  using dot_space_not_in_class by (auto simp: conforms_to_naming_def list_all_iff)

lemma conforms_example [simp]: "conforms_to_naming ''d''" "conforms_to_naming ''t''" "conforms_to_naming ''c''"
  by (simp_all add: conforms_to_naming_def char_class_defs)

lemma example_table_init: "BaseTable_init example_table = Inr example_table"
  by (simp add: BaseTable_init_Inr_iff validate_defs fullmatch_naming example_table_def)

text \<open>
  C5. Construction calls the validators of the declared fields one after the other in
  the order of the fields (format, database, catalog, table, write_mode,
  dataframe_type), each at most once and each exactly once when none fails. It stops at
  the first validator that raises: the validators called are those up to and including
  it, the exception is that validator's own, so that with several invalid fields the
  error is the one of the earliest declared of them, and no descriptor is returned.
\<close>

theorem post_init_first_violation:
  "field_validators =
     [Validate_format, Validate_database, Validate_catalog, Validate_table,
      Validate_write_mode, Validate_dataframe_type]
   \<and> fst (post_init t) =
       takeWhile (\<lambda>m. \<not> fails t m) field_validators
         @ take 1 (dropWhile (\<lambda>m. \<not> fails t m) field_validators)
   \<and> distinct (fst (post_init t))
   \<and> ((\<forall>m \<in> set field_validators. \<not> fails t m) \<longrightarrow>
        fst (post_init t) = field_validators \<and> BaseTable_init t = Inr t)
   \<and> snd (post_init t) =
       (case find (fails t) field_validators of
          None \<Rightarrow> Inr () | Some m \<Rightarrow> call_validator m t)
   \<and> BaseTable_init t =
       (case find (fails t) field_validators of
          None \<Rightarrow> Inr t | Some m \<Rightarrow> Inl (projl (call_validator m t)))"
proof -
  let ?ok = "\<lambda>m. \<not> fails t m"
  have run: "fst (post_init t) =
      takeWhile ?ok field_validators @ take 1 (dropWhile ?ok field_validators)"
    by (simp add: post_init_find)
  have d: "distinct field_validators"
    by (simp add: field_validators_eq)
  have "distinct (takeWhile ?ok field_validators @ dropWhile ?ok field_validators)"
    using d by simp
  then have parts: "distinct (takeWhile ?ok field_validators)"
      "distinct (dropWhile ?ok field_validators)"
      "set (takeWhile ?ok field_validators) \<inter> set (dropWhile ?ok field_validators) = {}"
    by (simp_all only: distinct_append)
  have "set (take 1 (dropWhile ?ok field_validators)) \<subseteq> set (dropWhile ?ok field_validators)"
    by (rule set_take_subset)
  with parts
  have "distinct (takeWhile ?ok field_validators @ take 1 (dropWhile ?ok field_validators))"
    unfolding distinct_append by (blast intro: distinct_take)
  then have dist: "distinct (fst (post_init t))"
    using run by simp
  have all_ok: "fst (post_init t) = field_validators \<and> BaseTable_init t = Inr t"
    if "\<forall>m \<in> set field_validators. \<not> fails t m"
  proof -
    have tw: "takeWhile ?ok field_validators = field_validators"
      using that by (simp add: takeWhile_eq_all_conv)
    have dw: "dropWhile ?ok field_validators = []"
      using that by simp
    have fd: "find (fails t) field_validators = None"
      using that by (simp add: find_None_iff)
    show ?thesis
      unfolding run BaseTable_init_find tw dw fd by simp
  qed
  have snd_eq: "snd (post_init t) =
      (case find (fails t) field_validators of
         None \<Rightarrow> Inr () | Some m \<Rightarrow> call_validator m t)"
    by (simp add: post_init_find)
  from field_validators_eq run dist all_ok snd_eq BaseTable_init_find [of t]
  show ?thesis by blast
qed

theorem post_init_first_violation_witness:
  "fst (post_init example_table) =
     [Validate_format, Validate_database, Validate_catalog, Validate_table,
      Validate_write_mode, Validate_dataframe_type]
   \<and> BaseTable_init example_table = Inr example_table
   \<and> fst (post_init (example_table\<lparr>database := ''a.b'', table := [], write_mode := Some ''upsert''\<rparr>)) =
       [Validate_format, Validate_database]
   \<and> BaseTable_init (example_table\<lparr>database := ''a.b'', table := [], write_mode := Some ''upsert''\<rparr>) =
       Inl (DatasetError InvalidDatabaseName)"
proof -
  let ?bad = "example_table\<lparr>database := ''a.b'', table := [], write_mode := Some ''upsert''\<rparr>"
  have ok: "\<forall>m \<in> set field_validators. \<not> fails example_table m"
    by (simp add: field_validators_eq fails_def validate_defs fullmatch_naming example_table_def)
  have nc: "\<not> conforms_to_naming ''a.b''"
    by (rule conforms_rejects) simp
  have f1: "\<not> fails ?bad Validate_format"
    by (simp add: fails_def validate_defs example_table_def)
  have f2: "fails ?bad Validate_database"
    using nc by (simp add: fails_def validate_defs fullmatch_naming example_table_def)
  have c2: "call_validator Validate_database ?bad = Inl (DatasetError InvalidDatabaseName)"
    using nc by (simp add: validate_defs fullmatch_naming example_table_def)
  have good: "fst (post_init example_table) = field_validators
      \<and> BaseTable_init example_table = Inr example_table"
    using post_init_first_violation [of example_table] ok by blast
  have "fst (post_init ?bad) =
       takeWhile (\<lambda>m. \<not> fails ?bad m) field_validators
         @ take 1 (dropWhile (\<lambda>m. \<not> fails ?bad m) field_validators)
     \<and> BaseTable_init ?bad =
       (case find (fails ?bad) field_validators of
          None \<Rightarrow> Inr ?bad | Some m \<Rightarrow> Inl (projl (call_validator m ?bad)))"
    using post_init_first_violation [of ?bad] by blast
  then have bad: "fst (post_init ?bad) = [Validate_format, Validate_database]
      \<and> BaseTable_init ?bad = Inl (DatasetError InvalidDatabaseName)"
    unfolding field_validators_eq using f1 f2 c2 by simp
  show ?thesis
    using good bad unfolding field_validators_eq by simp
qed

text \<open>
  C6. For a descriptor that construction returned, \<open>full_table_location\<close> is a function
  of the fields and is never \<open>None\<close>: with a catalog \<open>c\<close> (non-empty) it is the three
  names, each between backquotes, joined by dots; without a catalog it is the database and
  the table so quoted and joined. For any descriptor \<open>u\<close> it is \<open>None\<close> only when the
  database or the table is empty, which construction excludes.
\<close>

theorem full_table_location_constructed:
  assumes "BaseTable_init t = Inr t'"
  shows "t' = t
    \<and> full_table_location t' =
        Some ((if truthy (catalog t') then backquote (the (catalog t')) @ ''.'' else [])
              @ backquote (database t') @ ''.'' @ backquote (table t'))
    \<and> (\<forall>c. catalog t' = Some c \<and> c \<noteq> [] \<longrightarrow>
          full_table_location t' =
            Some (backquote c @ ''.'' @ backquote (database t') @ ''.'' @ backquote (table t')))
    \<and> (catalog t' = None \<longrightarrow>
          full_table_location t' = Some (backquote (database t') @ ''.'' @ backquote (table t')))
    \<and> (full_table_location u = None \<longrightarrow> database u = [] \<or> table u = [])
    \<and> database t' \<noteq> [] \<and> table t' \<noteq> []"
proof -
  from assms have eq: "t' = t" and db: "validate_database t = Inr ()"
    and tb: "validate_table t = Inr ()"
    by (simp_all add: BaseTable_init_Inr_iff)
  from db have "conforms_to_naming (database t)"
    by (simp add: validate_database_def fullmatch_naming split: if_splits)
  then have d: "database t \<noteq> []" by (simp add: conforms_to_naming_def)
  from tb have "conforms_to_naming (table t)"
    by (simp add: validate_table_def fullmatch_naming split: if_splits)
  then have n: "table t \<noteq> []" by (simp add: conforms_to_naming_def)
  have u: "full_table_location u = None \<longrightarrow> database u = [] \<or> table u = []"
    by (simp add: full_table_location_def)
  show ?thesis
    using eq d n u by (simp add: full_table_location_def truthy_def)
qed

theorem full_table_location_constructed_witness:
  "BaseTable_init example_table = Inr example_table
   \<and> full_table_location example_table =
       Some [CHR 0x60, CHR ''c'', CHR 0x60, CHR ''.'', CHR 0x60, CHR ''d'', CHR 0x60, CHR ''.'',
             CHR 0x60, CHR ''t'', CHR 0x60]
   \<and> BaseTable_init (example_table\<lparr>catalog := None\<rparr>) = Inr (example_table\<lparr>catalog := None\<rparr>)
   \<and> full_table_location (example_table\<lparr>catalog := None\<rparr>) =
       Some [CHR 0x60, CHR ''d'', CHR 0x60, CHR ''.'', CHR 0x60, CHR ''t'', CHR 0x60]"
proof -
  let ?t = "example_table\<lparr>catalog := None\<rparr>"
  have i2: "BaseTable_init ?t = Inr ?t"
    by (simp add: BaseTable_init_Inr_iff validate_defs fullmatch_naming example_table_def)
  have l1: "full_table_location example_table =
       Some [CHR 0x60, CHR ''c'', CHR 0x60, CHR ''.'', CHR 0x60, CHR ''d'', CHR 0x60, CHR ''.'',
             CHR 0x60, CHR ''t'', CHR 0x60]"
    using full_table_location_constructed [OF example_table_init, where u = example_table]
    by (simp add: example_table_def backquote_def truthy_def)
  have l2: "full_table_location ?t =
       Some [CHR 0x60, CHR ''d'', CHR 0x60, CHR ''.'', CHR 0x60, CHR ''t'', CHR 0x60]"
    using full_table_location_constructed [OF i2, where u = example_table]
    by (simp add: example_table_def backquote_def truthy_def)
  show ?thesis
    using example_table_init i2 l1 l2 by simp
qed

text \<open>
  C9, as stated, fails: a write mode other than overwrite and append does not always give
  the invalid-write-mode error, since a field declared earlier may be invalid too. Here
  the format is invalid as well and its error is the one raised.
\<close>

theorem write_mode_validation_counterexample:
  "BaseTable_init (example_table\<lparr>format := ''xml'', write_mode := Some ''upsert''\<rparr>) =
     Inl (DatasetError InvalidFormat)"
  by (simp add: BaseTable_init_find field_validators_eq fails_def validate_defs example_table_def)

text \<open>
  C9, amended. With a write mode \<open>m\<close> that is not null, construction succeeds only if
  \<open>m\<close> is overwrite or append. For any other \<open>m\<close> (upsert included; the descriptor has
  no primary key field and its validator is never called) the write-mode validator raises
  the invalid-write-mode error and construction fails; the error of construction is that
  one whenever format, database, catalog and table are valid.
\<close>

theorem write_mode_validation:
  assumes "write_mode t = Some m"
  shows "(BaseTable_init t = Inr t \<longrightarrow> m = ''overwrite'' \<or> m = ''append'')
    \<and> (m \<noteq> ''overwrite'' \<and> m \<noteq> ''append'' \<longrightarrow>
         validate_write_mode t = Inl (DatasetError InvalidWriteMode)
         \<and> (\<exists>e. BaseTable_init t = Inl e)
         \<and> (validate_format t = Inr () \<and> validate_database t = Inr () \<and>
            validate_catalog t = Inr () \<and> validate_table t = Inr () \<longrightarrow>
              BaseTable_init t = Inl (DatasetError InvalidWriteMode)))"
proof -
  have wm: "validate_write_mode t = Inl (DatasetError InvalidWriteMode)"
    if "m \<noteq> ''overwrite'' \<and> m \<noteq> ''append''"
    using that assms by (simp add: validate_write_mode_def VALID_WRITE_MODES_def)
  have ok: "m = ''overwrite'' \<or> m = ''append''" if "BaseTable_init t = Inr t"
  proof -
    from that have "validate_write_mode t = Inr ()"
      by (simp add: BaseTable_init_Inr_iff)
    then show ?thesis using wm by auto
  qed
  have fl: "\<exists>e. BaseTable_init t = Inl e" if "m \<noteq> ''overwrite'' \<and> m \<noteq> ''append''"
  proof (cases "BaseTable_init t")
    case (Inl e)
    then show ?thesis by blast
  next
    case (Inr t')
    then have "BaseTable_init t = Inr t" by (simp add: BaseTable_init_Inr_iff)
    with ok that show ?thesis by blast
  qed
  have first: "BaseTable_init t = Inl (DatasetError InvalidWriteMode)"
    if "m \<noteq> ''overwrite'' \<and> m \<noteq> ''append''"
      and "validate_format t = Inr () \<and> validate_database t = Inr () \<and>
            validate_catalog t = Inr () \<and> validate_table t = Inr ()"
    using that wm by (simp add: BaseTable_init_find field_validators_eq fails_def)
  show ?thesis using ok wm fl first by blast
qed

theorem write_mode_validation_witness:
  "write_mode (example_table\<lparr>write_mode := Some ''upsert''\<rparr>) = Some ''upsert''
   \<and> BaseTable_init (example_table\<lparr>write_mode := Some ''upsert''\<rparr>) =
       Inl (DatasetError InvalidWriteMode)
   \<and> BaseTable_init example_table = Inr example_table
   \<and> write_mode example_table = Some ''overwrite''"
proof -
  let ?t = "example_table\<lparr>write_mode := Some ''upsert''\<rparr>"
  have w: "write_mode ?t = Some ''upsert''" by simp
  have others: "validate_format ?t = Inr () \<and> validate_database ?t = Inr () \<and>
            validate_catalog ?t = Inr () \<and> validate_table ?t = Inr ()"
    by (simp add: validate_defs fullmatch_naming example_table_def)
  have "BaseTable_init ?t = Inl (DatasetError InvalidWriteMode)"
    using write_mode_validation [OF w] others by simp
  moreover have "write_mode example_table = Some ''overwrite''"
    by (simp add: example_table_def)
  ultimately show ?thesis using example_table_init by simp
qed

text \<open>
  C4, as stated, fails: a name of word characters and hyphens that begins or ends with a
  hyphen is rejected, because the pattern opens and closes with a word boundary.
\<close>

theorem naming_counterexample:
  "spec_word_chars_and_hyphens ''-t''
   \<and> BaseTable_init (example_table\<lparr>table := ''-t''\<rparr>) = Inl (DatasetError InvalidTableName)
   \<and> spec_word_chars_and_hyphens ''d-''
   \<and> BaseTable_init (example_table\<lparr>database := ''d-''\<rparr>) = Inl (DatasetError InvalidDatabaseName)"
proof -
  have "\<not> conforms_to_naming ''-t''" "\<not> conforms_to_naming ''d-''"
    by (simp_all add: conforms_to_naming_def)
  then show ?thesis
    by (simp add: spec_word_chars_and_hyphens_def BaseTable_init_find field_validators_eq fails_def
        validate_defs fullmatch_naming example_table_def char_class_defs)
qed

text \<open>
  C4, amended. With the other fields valid, construction succeeds if and only if the
  database and the table name are both accepted, where a name is accepted when it is a
  non-empty string of word characters and hyphens that neither begins nor ends with a
  hyphen. A rejected database name gives the database naming error, a rejected table name
  (the database being accepted) the table naming error. The empty string and every name
  with a dot or a space are rejected.
\<close>

theorem naming_validation:
  assumes "validate_format t = Inr ()" and "validate_catalog t = Inr ()"
    and "validate_write_mode t = Inr ()" and "validate_dataframe_type t = Inr ()"
  shows "(BaseTable_init t = Inr t) =
           (conforms_to_naming (database t) \<and> conforms_to_naming (table t))
    \<and> (\<not> conforms_to_naming (database t) \<longrightarrow>
          BaseTable_init t = Inl (DatasetError InvalidDatabaseName))
    \<and> (conforms_to_naming (database t) \<and> \<not> conforms_to_naming (table t) \<longrightarrow>
          BaseTable_init t = Inl (DatasetError InvalidTableName))
    \<and> conforms_to_naming s =
         (spec_word_chars_and_hyphens s \<and> hd s \<noteq> CHR ''-'' \<and> last s \<noteq> CHR ''-'')
    \<and> (s = [] \<or> CHR ''.'' \<in> set s \<or> CHR '' '' \<in> set s \<longrightarrow> \<not> conforms_to_naming s)"
proof -
  have cls: "naming_class = (\<lambda>c. is_word_char c \<or> c = CHR ''-'')"
    by (auto simp: naming_class_def is_word_char_def)
  have spec: "conforms_to_naming s =
         (spec_word_chars_and_hyphens s \<and> hd s \<noteq> CHR ''-'' \<and> last s \<noteq> CHR ''-'')"
    by (auto simp: conforms_to_naming_def spec_word_chars_and_hyphens_def cls)
  have db: "validate_database t =
      (if conforms_to_naming (database t) then Inr () else Inl (DatasetError InvalidDatabaseName))"
    by (simp add: validate_database_def fullmatch_naming)
  have tb: "validate_table t =
      (if conforms_to_naming (table t) then Inr () else Inl (DatasetError InvalidTableName))"
    by (simp add: validate_table_def fullmatch_naming)
  have init: "BaseTable_init t =
      (if \<not> conforms_to_naming (database t) then Inl (DatasetError InvalidDatabaseName)
       else if \<not> conforms_to_naming (table t) then Inl (DatasetError InvalidTableName)
       else Inr t)"
    using assms by (simp add: BaseTable_init_find field_validators_eq fails_def db tb)
  show ?thesis
    using init spec conforms_rejects [of s] by auto
qed

theorem naming_validation_witness:
  "BaseTable_init (example_table\<lparr>database := ''my-db_1'', table := ''t''\<rparr>) =
     Inr (example_table\<lparr>database := ''my-db_1'', table := ''t''\<rparr>)
   \<and> BaseTable_init (example_table\<lparr>database := ''d'', table := ''a.b''\<rparr>) =
       Inl (DatasetError InvalidTableName)
   \<and> BaseTable_init (example_table\<lparr>database := [], table := ''t''\<rparr>) =
       Inl (DatasetError InvalidDatabaseName)"
proof -
  have others: "validate_format (example_table\<lparr>database := x, table := y\<rparr>) = Inr ()"
    "validate_catalog (example_table\<lparr>database := x, table := y\<rparr>) = Inr ()"
    "validate_write_mode (example_table\<lparr>database := x, table := y\<rparr>) = Inr ()"
    "validate_dataframe_type (example_table\<lparr>database := x, table := y\<rparr>) = Inr ()" for x y
    by (simp_all add: validate_defs fullmatch_naming example_table_def)
  have c1: "conforms_to_naming ''my-db_1''"
    by (simp add: conforms_to_naming_def char_class_defs)
  have c2: "\<not> conforms_to_naming ''a.b''"
    by (rule conforms_rejects) simp
  have c3: "\<not> conforms_to_naming []"
    by (rule conforms_rejects) simp
  have w1: "BaseTable_init (example_table\<lparr>database := ''my-db_1'', table := ''t''\<rparr>) =
     Inr (example_table\<lparr>database := ''my-db_1'', table := ''t''\<rparr>)"
    using naming_validation [OF others [where x = "''my-db_1''" and y = "''t''"], where s = "[]"] c1 by simp
  have w2: "BaseTable_init (example_table\<lparr>database := ''d'', table := ''a.b''\<rparr>) =
       Inl (DatasetError InvalidTableName)"
    using naming_validation [OF others [where x = "''d''" and y = "''a.b''"], where s = "[]"] c2 by simp
  have w3: "BaseTable_init (example_table\<lparr>database := [], table := ''t''\<rparr>) =
       Inl (DatasetError InvalidDatabaseName)"
    using naming_validation [OF others [where x = "[]" and y = "''t''"], where s = "[]"] c3 by simp
  show ?thesis using w1 w2 w3 by simp
qed

section \<open>Properties of the dataset\<close>

lemma dataset_init_iff:
  "(BaseTableDataset_init BaseTable_init raw md kw = Inr ds) =
     (BaseTable_init raw = Inr raw \<and> ds = \<lparr>the_table = raw, metadata = md, kwargs = kw\<rparr>)"
proof (cases "BaseTable_init raw")
  case (Inl e)
  then show ?thesis by (simp add: BaseTableDataset_init_def)
next
  case (Inr t)
  then have "t = raw" by (simp add: BaseTable_init_Inr_iff)
  with Inr show ?thesis by (auto simp: BaseTableDataset_init_def)
qed

lemma dataset_of_init:
  "BaseTable_init t = Inr t \<Longrightarrow>
     BaseTableDataset_init BaseTable_init t None Map.empty = Inr (dataset_of t)"
  by (simp add: dataset_init_iff dataset_of_def)

lemma constructed_location:
  assumes "BaseTable_init t = Inr t"
  shows "database t \<noteq> []" "table t \<noteq> []" "full_table_location t \<noteq> None"
    "location_or_empty t = the (full_table_location t)"
proof -
  from assms have "validate_database t = Inr ()" "validate_table t = Inr ()"
    by (simp_all add: BaseTable_init_Inr_iff)
  then have "conforms_to_naming (database t)" "conforms_to_naming (table t)"
    by (simp_all add: validate_database_def validate_table_def fullmatch_naming split: if_splits)
  then show d: "database t \<noteq> []" and n: "table t \<noteq> []"
    by (simp_all add: conforms_to_naming_def)
  then show "full_table_location t \<noteq> None"
    "location_or_empty t = the (full_table_location t)"
    by (simp_all add: full_table_location_def location_or_empty_def)
qed

subsection \<open>Read-only datasets\<close>



subsection \<open>Describing\<close>

text \<open>
  C10. \<open>describe\<close> of a dataset holding the options \<open>kw\<close>: every key of \<open>kw\<close> maps to
  its value in \<open>kw\<close>, also when it is one of the seven fixed keys; the keys of the result
  are the fixed keys and those of \<open>kw\<close>; and when \<open>kw\<close> has none of the fixed keys, each
  fixed key maps to the descriptor's field.
\<close>

theorem describe_kwargs_last:
  assumes "BaseTableDataset_init create_table args md kw = Inr ds"
  shows "kwargs ds = kw
    \<and> (\<forall>k \<in> dom kw. describe ds k = kw k)
    \<and> dom (describe ds) = fixed_keys \<union> dom kw
    \<and> (dom kw \<inter> fixed_keys = {} \<longrightarrow>
         describe ds ''catalog'' = Some (optional_str (catalog (the_table ds)))
         \<and> describe ds ''database'' = Some (PyStr (database (the_table ds)))
         \<and> describe ds ''table'' = Some (PyStr (table (the_table ds)))
         \<and> describe ds ''write_mode'' = Some (optional_str (write_mode (the_table ds)))
         \<and> describe ds ''dataframe_type'' = Some (PyStr (dataframe_type (the_table ds)))
         \<and> describe ds ''owner_group'' = Some (optional_str (owner_group (the_table ds)))
         \<and> describe ds ''partition_columns'' =
             Some (partition_value (partition_columns (the_table ds))))"
proof -
  from assms have kw: "kwargs ds = kw"
    by (auto simp: BaseTableDataset_init_def split: sum.splits)
  have shadow: "\<forall>k \<in> dom kw. describe ds k = kw k"
    using kw by (auto simp: describe_def map_add_def)
  have keys: "dom (describe ds) = fixed_keys \<union> dom kw"
    using kw by (auto simp: describe_def fixed_keys_def)
  have fixed: "describe ds k = map_of
       [(''catalog'', optional_str (catalog (the_table ds))),
        (''database'', PyStr (database (the_table ds))),
        (''table'', PyStr (table (the_table ds))),
        (''write_mode'', optional_str (write_mode (the_table ds))),
        (''dataframe_type'', PyStr (dataframe_type (the_table ds))),
        (''owner_group'', optional_str (owner_group (the_table ds))),
        (''partition_columns'', partition_value (partition_columns (the_table ds)))] k"
    if "dom kw \<inter> fixed_keys = {}" "k \<in> fixed_keys" for k
  proof -
    from that have "kw k = None" by auto
    then show ?thesis using kw by (simp add: describe_def map_add_def)
  qed
  have "describe ds ''catalog'' = Some (optional_str (catalog (the_table ds)))
         \<and> describe ds ''database'' = Some (PyStr (database (the_table ds)))
         \<and> describe ds ''table'' = Some (PyStr (table (the_table ds)))
         \<and> describe ds ''write_mode'' = Some (optional_str (write_mode (the_table ds)))
         \<and> describe ds ''dataframe_type'' = Some (PyStr (dataframe_type (the_table ds)))
         \<and> describe ds ''owner_group'' = Some (optional_str (owner_group (the_table ds)))
         \<and> describe ds ''partition_columns'' =
             Some (partition_value (partition_columns (the_table ds)))"
    if "dom kw \<inter> fixed_keys = {}"
    using fixed [OF that] by (simp add: fixed_keys_def)
  with kw shadow keys show ?thesis by blast
qed

theorem describe_kwargs_last_witness:
  "describe \<lparr>the_table = example_table, metadata = None,
              kwargs = [''catalog'' \<mapsto> PyObject (), ''version'' \<mapsto> PyNone]\<rparr> ''catalog'' =
     Some (PyObject ())
   \<and> describe \<lparr>the_table = example_table, metadata = None,
              kwargs = [''version'' \<mapsto> (PyNone :: unit pyvalue)]\<rparr> ''catalog'' = Some (PyStr ''c'')"
proof -
  let ?k1 = "[''catalog'' \<mapsto> PyObject (), ''version'' \<mapsto> PyNone] :: string \<rightharpoonup> unit pyvalue"
  let ?k2 = "[''version'' \<mapsto> PyNone] :: string \<rightharpoonup> unit pyvalue"
  have i1: "BaseTableDataset_init BaseTable_init example_table None ?k1 =
      Inr \<lparr>the_table = example_table, metadata = None, kwargs = ?k1\<rparr>"
    and i2: "BaseTableDataset_init BaseTable_init example_table None ?k2 =
      Inr \<lparr>the_table = example_table, metadata = None, kwargs = ?k2\<rparr>"
    using example_table_init by (simp_all add: dataset_init_iff)
  have d: "dom ?k2 \<inter> fixed_keys = {}"
    by (simp add: fixed_keys_def)
  have "describe \<lparr>the_table = example_table, metadata = None, kwargs = ?k1\<rparr> ''catalog'' =
      ?k1 ''catalog''"
    using describe_kwargs_last [OF i1] by simp
  moreover have "describe \<lparr>the_table = example_table, metadata = None, kwargs = ?k2\<rparr> ''catalog'' =
      Some (optional_str (Some ''c''))"
    using describe_kwargs_last [OF i2] d by (simp add: example_table_def)
  ultimately show ?thesis by (simp add: optional_str_def)
qed

subsection \<open>Existence\<close>

lemma caught_iff: "caught e = (e \<noteq> OtherSparkError)"
  by (cases e) (simp_all add: caught_def)

lemma use_catalog_no_other:
  assumes "\<forall>q s. fst (spark_sql eng q s) \<noteq> Inl OtherSparkError"
  shows "fst (use_catalog eng ds w) = Inr ()"
    and "engine_state (snd (use_catalog eng ds w)) =
      (if truthy (catalog (the_table ds))
       then snd (spark_sql eng (''USE CATALOG '' @ backquote (the (catalog (the_table ds))))
                   (engine_state w))
       else engine_state w)"
    and "truthy (catalog (the_table ds)) \<Longrightarrow>
       fst (spark_sql eng (''USE CATALOG '' @ backquote (the (catalog (the_table ds))))
              (engine_state w)) = Inl e \<Longrightarrow>
       CatalogNotFound (the (catalog (the_table ds))) e \<in> set (warnings (snd (use_catalog eng ds w)))"
proof -
  let ?q = "''USE CATALOG '' @ backquote (the (catalog (the_table ds)))"
  obtain r s' where r: "spark_sql eng ?q (engine_state w) = (r, s')"
    by (cases "spark_sql eng ?q (engine_state w)")
  with assms have no: "r \<noteq> Inl OtherSparkError"
    by (metis fst_conv)
  show "fst (use_catalog eng ds w) = Inr ()"
    using r no by (cases r) (auto simp: use_catalog_def call_sql_def caught_iff)
  show "engine_state (snd (use_catalog eng ds w)) =
      (if truthy (catalog (the_table ds)) then snd (spark_sql eng ?q (engine_state w))
       else engine_state w)"
    using r no by (cases r) (auto simp: use_catalog_def call_sql_def caught_iff)
  show "CatalogNotFound (the (catalog (the_table ds))) e \<in> set (warnings (snd (use_catalog eng ds w)))"
    if "truthy (catalog (the_table ds))" "fst (spark_sql eng ?q (engine_state w)) = Inl e"
    using that r no by (auto simp: use_catalog_def call_sql_def caught_iff)
qed

lemma exists_warnings_mono:
  "set (warnings (snd (use_catalog eng ds w))) \<subseteq> set (warnings (snd (exists eng ds w)))"
proof -
  obtain u w1 where u: "use_catalog eng ds w = (u, w1)"
    by (cases "use_catalog eng ds w")
  let ?q = "''SHOW TABLES IN '' @ backquote (database (the_table ds))"
  obtain r s' where r: "spark_sql eng ?q (engine_state w1) = (r, s')"
    by (cases "spark_sql eng ?q (engine_state w1)")
  show ?thesis
    using u r by (cases u; cases r) (auto simp: exists_def call_sql_def)
qed

text \<open>
  C3, as stated, fails: \<open>exists\<close> can raise. Only parse and analysis errors are caught;
  an engine that raises anything else, on the catalog switch or on the table listing,
  has its exception passed on to the caller.
\<close>

theorem exists_counterexample:
  "fst (exists failing_engine (dataset_of example_table) empty_session) =
     Inl (SparkException OtherSparkError)
   \<and> fst (exists failing_engine (dataset_of (example_table\<lparr>catalog := None\<rparr>)) empty_session) =
     Inl (SparkException OtherSparkError)"
  by (simp add: exists_def use_catalog_def call_sql_def failing_engine_def dataset_of_def
      example_table_def empty_session_def truthy_def caught_def)

text \<open>
  C3, amended. With an engine whose queries fail with parse or analysis errors only,
  \<open>exists\<close> never raises. Its result is decided by the table listing alone, run in the
  engine state the catalog switch left (when a catalog is set) or in the current one:
  false when the listing fails, and otherwise true if and only if some listed row has the
  configured table's name. A failed catalog switch is logged as a warning and does not
  change this.
\<close>

theorem exists_never_raises:
  assumes "\<forall>q s. fst (spark_sql eng q s) \<noteq> Inl OtherSparkError"
  shows "fst (exists eng ds w) =
      Inr (case fst (spark_sql eng (''SHOW TABLES IN '' @ backquote (database (the_table ds)))
                 (if truthy (catalog (the_table ds))
                  then snd (spark_sql eng
                         (''USE CATALOG '' @ backquote (the (catalog (the_table ds))))
                         (engine_state w))
                  else engine_state w)) of
             Inl e \<Rightarrow> False
           | Inr rows \<Rightarrow> \<exists>r \<in> set rows. tableName r = table (the_table ds))
    \<and> (\<forall>e. truthy (catalog (the_table ds)) \<and>
            fst (spark_sql eng (''USE CATALOG '' @ backquote (the (catalog (the_table ds))))
                  (engine_state w)) = Inl e \<longrightarrow>
            CatalogNotFound (the (catalog (the_table ds))) e
              \<in> set (warnings (snd (exists eng ds w))))"
proof -
  let ?q = "''SHOW TABLES IN '' @ backquote (database (the_table ds))"
  obtain u w1 where u: "use_catalog eng ds w = (u, w1)"
    by (cases "use_catalog eng ds w")
  from use_catalog_no_other(1,2) [OF assms, of ds w] u
  have u1: "u = Inr ()" and st: "engine_state w1 =
      (if truthy (catalog (the_table ds))
       then snd (spark_sql eng (''USE CATALOG '' @ backquote (the (catalog (the_table ds))))
                   (engine_state w))
       else engine_state w)"
    by simp_all
  obtain r s' where r: "spark_sql eng ?q (engine_state w1) = (r, s')"
    by (cases "spark_sql eng ?q (engine_state w1)")
  with assms have no: "r \<noteq> Inl OtherSparkError"
    by (metis fst_conv)
  have "fst (exists eng ds w) =
      Inr (case r of Inl e \<Rightarrow> False
           | Inr rows \<Rightarrow> \<exists>x \<in> set rows. tableName x = table (the_table ds))"
    using u u1 r no
    by (cases r) (auto simp: exists_def call_sql_def caught_iff filter_empty_conv)
  moreover have "fst (spark_sql eng ?q (engine_state w1)) = r"
    using r by simp
  ultimately have res: "fst (exists eng ds w) =
      Inr (case fst (spark_sql eng ?q (engine_state w1)) of Inl e \<Rightarrow> False
           | Inr rows \<Rightarrow> \<exists>x \<in> set rows. tableName x = table (the_table ds))"
    by simp
  have warn: "CatalogNotFound (the (catalog (the_table ds))) e
              \<in> set (warnings (snd (exists eng ds w)))"
    if "truthy (catalog (the_table ds))"
      "fst (spark_sql eng (''USE CATALOG '' @ backquote (the (catalog (the_table ds))))
                  (engine_state w)) = Inl e" for e
    using use_catalog_no_other(3) [OF assms that] exists_warnings_mono by blast
  show ?thesis
    using res warn unfolding st by blast
qed

theorem exists_never_raises_witness:
  "fst (exists listing_engine (dataset_of example_table) empty_session) = Inr True
   \<and> CatalogNotFound ''c'' AnalysisException
       \<in> set (warnings (snd (exists listing_engine (dataset_of example_table) empty_session)))
   \<and> fst (exists listing_engine (dataset_of (example_table\<lparr>database := ''missing''\<rparr>))
            empty_session) = Inr False"
proof -
  have eng: "\<forall>q s. fst (spark_sql listing_engine q s) \<noteq> Inl OtherSparkError"
    by (simp add: listing_engine_def)
  show ?thesis
    using exists_never_raises [OF eng, of "dataset_of example_table" empty_session]
      exists_never_raises [OF eng, of "dataset_of (example_table\<lparr>database := ''missing''\<rparr>)"
        empty_session]
    by (simp add: listing_engine_def dataset_of_def example_table_def truthy_def backquote_def)
qed

subsection \<open>Saving\<close>

lemma schema_Some:
  "json_schema t = Some js \<Longrightarrow> fromJson js = Inr st \<Longrightarrow> schema fromJson t = Inr (Some st)"
  by (simp add: schema_def)

lemma schema_None: "json_schema t = None \<Longrightarrow> schema fromJson t = Inr None"
  by (simp add: schema_def)

lemma schema_not_unsupported: "schema fromJson t \<noteq> Inl (DatasetError UnsupportedWriteMode)"
  by (simp add: schema_def split: option.splits sum.splits decode_error.splits)

lemma call_saveAsTable_calls:
  "calls (snd (call_saveAsTable eng req w)) = calls w @ [SaveAsTable req]"
  by (simp add: call_saveAsTable_def split: prod.splits)

lemma call_saveAsTable_error:
  "fst (call_saveAsTable eng req w) \<noteq> Inl (DatasetError e)"
  by (simp add: call_saveAsTable_def split: prod.splits sum.splits)

lemma call_save_method_error:
  "fst (call_save_method h eng ds data w) \<noteq> Inl (DatasetError e)"
  by (cases h; cases data) (simp_all add: save_append_def save_overwrite_def call_saveAsTable_error)

lemma createDataFrame_error:
  "fst (createDataFrame eng data sch w) \<noteq> Inl (DatasetError e)"
  by (simp add: createDataFrame_def split: dataframe.splits prod.splits sum.splits)

lemma match_schema_error:
  "fst (match_schema fromJson eng ds sch data w) \<noteq> Inl (DatasetError UnsupportedWriteMode)"
proof -
  have l: "loc eng cols data \<noteq> Inl (DatasetError UnsupportedWriteMode)" for cols
    by (simp add: loc_def split: dataframe.splits option.splits)
  have s: "select eng cols data \<noteq> Inl (DatasetError UnsupportedWriteMode)" for cols
    by (simp add: select_def split: dataframe.splits sum.splits)
  show ?thesis
    using l s schema_not_unsupported [of fromJson "the_table ds"]
      createDataFrame_error [of eng _ _ w UnsupportedWriteMode]
    by (auto simp: match_schema_def split: sum.splits)
qed

lemma constructed_modes:
  assumes "BaseTable_init t = Inr t"
  shows "write_mode t = Some m \<Longrightarrow> m = ''overwrite'' \<or> m = ''append''"
    and "dataframe_type t = ''spark'' \<or> dataframe_type t = ''pandas''"
proof -
  from assms have w: "validate_write_mode t = Inr ()" and d: "validate_dataframe_type t = Inr ()"
    by (simp_all add: BaseTable_init_Inr_iff)
  show "m = ''overwrite'' \<or> m = ''append''" if "write_mode t = Some m"
    using w that by (simp add: validate_write_mode_def VALID_WRITE_MODES_def split: if_splits)
  show "dataframe_type t = ''spark'' \<or> dataframe_type t = ''pandas''"
    using d by (simp add: validate_dataframe_type_def VALID_DATAFRAME_TYPES_def split: if_splits)
qed

lemma save_method_constructed:
  assumes "BaseTable_init t = Inr t" and "write_mode t = Some m"
  shows "\<exists>h. save_method m = Some h"
  using constructed_modes(1) [OF assms] by (auto simp: save_method_def)

text \<open>What a handler asks the engine to write.\<close>

lemma handler_request:
  assumes "save_method m = Some h" and "write_mode (the_table ds) = Some m"
  shows "calls (snd (call_save_method h eng ds (SparkDF fr) w)) =
      calls w @ [SaveAsTable
        (WriteRequest (format (the_table ds)) (Some m)
           (if m = ''overwrite'' then [(''overwriteSchema'', ''true'')] else [])
           (location_or_empty (the_table ds)) fr)]"
  using assms
  by (cases h)
    (auto simp: save_method_def save_append_def save_overwrite_def call_saveAsTable_calls
      split: if_splits)

text \<open>The two ways a non-empty schema is matched.\<close>

lemma match_schema_spark:
  assumes "dataframe_type (the_table ds) \<noteq> ''pandas''" and "st \<noteq> []"
    and "spark_select eng (fieldNames st) fr = Inr out"
  shows "match_schema fromJson eng ds (Some st) (SparkDF fr) w = (Inr (SparkDF out), w)"
  using assms by (simp add: match_schema_def select_def)

lemma match_schema_pandas:
  assumes "dataframe_type (the_table ds) = ''pandas''" and "st \<noteq> []"
    and "json_schema (the_table ds) = Some js" and "fromJson js = Inr st"
    and "pandas_loc eng (fieldNames st) fr = Some sel"
    and "spark_createDataFrame eng sel (Some st) (engine_state w) = (Inr out, s')"
  shows "match_schema fromJson eng ds (Some st) (PandasDF fr) w =
      (Inr (SparkDF out),
       w\<lparr>engine_state := s', calls := calls w @ [CreateDataFrame sel (Some st)]\<rparr>)"
  using assms by (simp add: match_schema_def loc_def schema_Some createDataFrame_def)

lemma by_name_names: "by_name cols fr = Some out \<Longrightarrow> map fst out = cols"
  by (auto simp: by_name_def comp_def split: if_splits)

lemma example_select_names: "example_select cols fr = Inr out \<Longrightarrow> map fst out = cols"
  by (auto simp: example_select_def dest: by_name_names split: option.splits)

lemma example_createDataFrame_names:
  "example_createDataFrame fr (Some st) s = (Inr out, s') \<Longrightarrow> map fst out = fieldNames st"
  by (auto simp: example_createDataFrame_def fieldNames_def split: if_splits)

lemmas example_defs =
  example_table_def dataset_of_def empty_session_def idle_engine_def decoded_def

lemma example_variants_init:
  "BaseTable_init (example_table\<lparr>json_schema := x\<rparr>) = Inr (example_table\<lparr>json_schema := x\<rparr>)"
  "BaseTable_init (example_table\<lparr>dataframe_type := ''pandas'', json_schema := x\<rparr>) =
     Inr (example_table\<lparr>dataframe_type := ''pandas'', json_schema := x\<rparr>)"
  "BaseTable_init (example_table\<lparr>write_mode := Some ''append'', dataframe_type := ''pandas''\<rparr>) =
     Inr (example_table\<lparr>write_mode := Some ''append'', dataframe_type := ''pandas''\<rparr>)"
  by (simp_all add: BaseTable_init_Inr_iff validate_defs fullmatch_naming example_table_def)

text \<open>
  C1. A dataset constructed with a write mode and a schema that decodes to the fields
  \<open>st\<close> (at least one). Selecting columns and building an engine dataframe are the
  libraries' work and are taken as the engine gives them, with what the two calls
  promise: a selection that succeeds returns the columns asked for, in the order asked,
  and a dataframe built with a schema bears the schema's field names. On the spark path,
  when selecting the schema's field names from the data succeeds, the one thing save asks
  of the engine is to write the selection. On the pandas path, when selecting the field
  names and building the dataframe succeed, save asks for the engine dataframe of the
  selection with the decoded schema and then for the write of that dataframe. On both
  paths the dataframe written has exactly the schema's field names, in the schema's
  order: a column of the data that the schema does not name is not written.
\<close>

theorem save_matches_schema:
  assumes init: "BaseTableDataset_init BaseTable_init raw md kw = Inr ds"
    and wm: "write_mode (the_table ds) = Some m"
    and js: "json_schema (the_table ds) = Some js" "fromJson js = Inr st" "st \<noteq> []"
    and select_names: "\<And>cols fr out. spark_select eng cols fr = Inr out \<Longrightarrow> map fst out = cols"
    and create_names:
      "\<And>fr st s out s'. spark_createDataFrame eng fr (Some st) s = (Inr out, s') \<Longrightarrow>
         map fst out = fieldNames st"
  shows "(dataframe_type (the_table ds) = ''spark'' \<and>
          spark_select eng (fieldNames st) fr = Inr out \<longrightarrow>
            (\<exists>req. calls (snd (save fromJson eng ds (SparkDF fr) w)) = calls w @ [SaveAsTable req]
               \<and> wr_data req = out \<and> map fst (wr_data req) = fieldNames st))
    \<and> (dataframe_type (the_table ds) = ''pandas'' \<and>
        pandas_loc eng (fieldNames st) fr = Some sel \<and>
        spark_createDataFrame eng sel (Some st) (engine_state w) = (Inr out, s') \<longrightarrow>
            (\<exists>req. calls (snd (save fromJson eng ds (PandasDF fr) w)) =
                 calls w @ [CreateDataFrame sel (Some st), SaveAsTable req]
               \<and> wr_data req = out \<and> map fst (wr_data req) = fieldNames st))"
proof -
  from init have t: "BaseTable_init (the_table ds) = Inr (the_table ds)"
    by (auto simp: dataset_init_iff)
  obtain h where h: "save_method m = Some h"
    using save_method_constructed [OF t wm] by blast
  let ?req = "WriteRequest (format (the_table ds)) (Some m)
           (if m = ''overwrite'' then [(''overwriteSchema'', ''true'')] else [])
           (location_or_empty (the_table ds)) out"
  have spark: "\<exists>req. calls (snd (save fromJson eng ds (SparkDF fr) w)) = calls w @ [SaveAsTable req]
               \<and> wr_data req = out \<and> map fst (wr_data req) = fieldNames st"
    if "dataframe_type (the_table ds) = ''spark''"
      and sel: "spark_select eng (fieldNames st) fr = Inr out"
  proof -
    from that(1) have np: "dataframe_type (the_table ds) \<noteq> ''pandas''" by simp
    have ms: "match_schema fromJson eng ds (Some st) (SparkDF fr) w = (Inr (SparkDF out), w)"
      using np js(3) sel by (rule match_schema_spark)
    have sv: "save fromJson eng ds (SparkDF fr) w = call_save_method h eng ds (SparkDF out) w"
      using wm js h ms by (simp add: save_def schema_Some)
    have "calls (snd (save fromJson eng ds (SparkDF fr) w)) = calls w @ [SaveAsTable ?req]"
      unfolding sv by (rule handler_request [OF h wm])
    moreover have "wr_data ?req = out" by simp
    moreover have "map fst (wr_data ?req) = fieldNames st"
      using select_names [OF sel] by simp
    ultimately show ?thesis by blast
  qed
  have pandas: "\<exists>req. calls (snd (save fromJson eng ds (PandasDF fr) w)) =
                 calls w @ [CreateDataFrame sel (Some st), SaveAsTable req]
               \<and> wr_data req = out \<and> map fst (wr_data req) = fieldNames st"
    if pd: "dataframe_type (the_table ds) = ''pandas''"
      and lc: "pandas_loc eng (fieldNames st) fr = Some sel"
      and cr: "spark_createDataFrame eng sel (Some st) (engine_state w) = (Inr out, s')"
  proof -
    let ?w1 = "w\<lparr>engine_state := s', calls := calls w @ [CreateDataFrame sel (Some st)]\<rparr>"
    have ms: "match_schema fromJson eng ds (Some st) (PandasDF fr) w = (Inr (SparkDF out), ?w1)"
      using match_schema_pandas [where fromJson = fromJson and eng = eng and ds = ds and st = st
          and js = js and fr = fr and sel = sel and out = out and w = w and s' = s']
        pd js lc cr
      by blast
    have sv: "save fromJson eng ds (PandasDF fr) w = call_save_method h eng ds (SparkDF out) ?w1"
      using wm js h ms by (simp add: save_def schema_Some)
    have "calls (snd (save fromJson eng ds (PandasDF fr) w)) = calls ?w1 @ [SaveAsTable ?req]"
      unfolding sv by (rule handler_request [OF h wm])
    then have "calls (snd (save fromJson eng ds (PandasDF fr) w)) =
        calls w @ [CreateDataFrame sel (Some st), SaveAsTable ?req]"
      by simp
    moreover have "wr_data ?req = out" by simp
    moreover have "map fst (wr_data ?req) = fieldNames st"
      using create_names [OF cr] by simp
    ultimately show ?thesis by blast
  qed
  show ?thesis using spark pandas by blast
qed

theorem save_matches_schema_witness:
  "(\<exists>req. calls (snd (save decoded idle_engine
              (dataset_of (example_table\<lparr>json_schema := Some example_schema\<rparr>))
              (SparkDF [(''a'', 1), (''b'', 2), (''c'', 3)]) empty_session)) = [SaveAsTable req]
          \<and> wr_data req = [(''a'', 1), (''b'', 2)])
   \<and> (\<exists>req. calls (snd (save decoded idle_engine
              (dataset_of (example_table\<lparr>dataframe_type := ''pandas'',
                 json_schema := Some example_schema\<rparr>))
              (PandasDF [(''c'', 3), (''b'', 2), (''a'', 1)]) empty_session)) =
            [CreateDataFrame [(''a'', 1), (''b'', 2)] (Some example_schema), SaveAsTable req]
          \<and> wr_data req = [(''a'', 1), (''b'', 2)])"
proof -
  let ?s = "example_table\<lparr>json_schema := Some example_schema\<rparr>"
  let ?p = "example_table\<lparr>dataframe_type := ''pandas'', json_schema := Some example_schema\<rparr>"
  have names: "fieldNames example_schema = [''a'', ''b'']"
    by (simp add: fieldNames_def example_schema_def)
  have ne: "example_schema \<noteq> []"
    by (simp add: example_schema_def)
  have dec: "decoded example_schema = Inr example_schema"
    by (simp add: decoded_def)
  have law1: "\<And>cols fr out. spark_select idle_engine cols fr = Inr out \<Longrightarrow> map fst out = cols"
    by (simp add: idle_engine_def example_select_names)
  have law2: "\<And>fr st s out s'.
      spark_createDataFrame idle_engine fr (Some st) s = (Inr out, s') \<Longrightarrow>
        map fst out = fieldNames st"
    by (simp add: idle_engine_def example_createDataFrame_names)
  have sel: "spark_select idle_engine [''a'', ''b''] [(''a'', 1), (''b'', 2), (''c'', 3)] =
      Inr [(''a'', 1), (''b'', 2)]"
    by (simp add: idle_engine_def example_select_def by_name_def plain_frame_def is_lower_def)
  have lc: "pandas_loc idle_engine [''a'', ''b''] [(''c'', 3), (''b'', 2), (''a'', 1)] =
      Some [(''a'', 1), (''b'', 2)]"
    by (simp add: idle_engine_def by_name_def plain_frame_def is_lower_def)
  have cr: "spark_createDataFrame idle_engine [(''a'', 1), (''b'', 2)] (Some example_schema)
      (engine_state empty_session) = (Inr [(''a'', 1), (''b'', 2)], ())"
    by (simp add: idle_engine_def example_createDataFrame_def example_schema_def fieldNames_def)
  have ws: "write_mode (the_table (dataset_of ?s)) = Some ''overwrite''"
    "json_schema (the_table (dataset_of ?s)) = Some example_schema"
    "dataframe_type (the_table (dataset_of ?s)) = ''spark''"
    and wp: "write_mode (the_table (dataset_of ?p)) = Some ''overwrite''"
    "json_schema (the_table (dataset_of ?p)) = Some example_schema"
    "dataframe_type (the_table (dataset_of ?p)) = ''pandas''"
    by (simp_all add: dataset_of_def example_table_def)
  have s1: "\<exists>req. calls (snd (save decoded idle_engine (dataset_of ?s)
              (SparkDF [(''a'', 1), (''b'', 2), (''c'', 3)]) empty_session)) =
            calls empty_session @ [SaveAsTable req]
          \<and> wr_data req = [(''a'', 1), (''b'', 2)]"
    using save_matches_schema [where raw = ?s and md = None and kw = Map.empty
        and ds = "dataset_of ?s" and m = "''overwrite''" and js = example_schema
        and fromJson = decoded and st = example_schema and eng = idle_engine
        and fr = "[(''a'', 1), (''b'', 2), (''c'', 3)]"
        and out = "[(''a'', 1), (''b'', 2)]" and w = empty_session]
      dataset_of_init [OF example_variants_init(1)] ws dec ne law1 law2 sel names
    by auto
  have s2: "\<exists>req. calls (snd (save decoded idle_engine (dataset_of ?p)
              (PandasDF [(''c'', 3), (''b'', 2), (''a'', 1)]) empty_session)) =
            calls empty_session
              @ [CreateDataFrame [(''a'', 1), (''b'', 2)] (Some example_schema), SaveAsTable req]
          \<and> wr_data req = [(''a'', 1), (''b'', 2)]"
    using save_matches_schema [where raw = ?p and md = None and kw = Map.empty
        and ds = "dataset_of ?p" and m = "''overwrite''" and js = example_schema
        and fromJson = decoded and st = example_schema and eng = idle_engine
        and fr = "[(''c'', 3), (''b'', 2), (''a'', 1)]"
        and sel = "[(''a'', 1), (''b'', 2)]"
        and out = "[(''a'', 1), (''b'', 2)]" and w = empty_session and s' = "()"]
      dataset_of_init [OF example_variants_init(2)] wp dec ne law1 law2 lc cr names
    by auto
  from s1 s2 show ?thesis by (simp add: empty_session_def)
qed

text \<open>
  C7, as stated, fails twice over. A dataset constructed with the pandas dataframe type
  and no schema need not have the overwrite mode: with the append mode the dataframe is
  built in the same way, but the append handler runs, and the write is in append mode
  with no schema-overwrite option. And with the overwrite mode the handler is not always
  reached: when the engine refuses to build the dataframe, as it does for an empty frame,
  save raises the engine's exception and nothing is written.
\<close>

theorem save_pandas_counterexample:
  "BaseTable_init (example_table\<lparr>write_mode := Some ''append'', dataframe_type := ''pandas''\<rparr>) =
     Inr (example_table\<lparr>write_mode := Some ''append'', dataframe_type := ''pandas''\<rparr>)
   \<and> json_schema (example_table\<lparr>write_mode := Some ''append'', dataframe_type := ''pandas''\<rparr>) = None
   \<and> calls (snd (save decoded idle_engine
        (dataset_of (example_table\<lparr>write_mode := Some ''append'', dataframe_type := ''pandas''\<rparr>))
        (PandasDF [(''a'', 1)]) empty_session)) =
       [CreateDataFrame [(''a'', 1)] None,
        SaveAsTable (WriteRequest ''delta'' (Some ''append'') []
          [CHR 0x60, CHR ''c'', CHR 0x60, CHR ''.'', CHR 0x60, CHR ''d'', CHR 0x60, CHR ''.'',
           CHR 0x60, CHR ''t'', CHR 0x60]
          [(''a'', 1)])]
   \<and> BaseTable_init (example_table\<lparr>dataframe_type := ''pandas'', json_schema := None\<rparr>) =
       Inr (example_table\<lparr>dataframe_type := ''pandas'', json_schema := None\<rparr>)
   \<and> save decoded failing_engine
        (dataset_of (example_table\<lparr>dataframe_type := ''pandas'', json_schema := None\<rparr>))
        (PandasDF []) empty_session =
       (Inl (SparkException OtherSparkError),
        empty_session\<lparr>calls := [CreateDataFrame [] None]\<rparr>)"
proof -
  have a: "calls (snd (save decoded idle_engine
        (dataset_of (example_table\<lparr>write_mode := Some ''append'', dataframe_type := ''pandas''\<rparr>))
        (PandasDF [(''a'', 1)]) empty_session)) =
       [CreateDataFrame [(''a'', 1)] None,
        SaveAsTable (WriteRequest ''delta'' (Some ''append'') []
          [CHR 0x60, CHR ''c'', CHR 0x60, CHR ''.'', CHR 0x60, CHR ''d'', CHR 0x60, CHR ''.'',
           CHR 0x60, CHR ''t'', CHR 0x60]
          [(''a'', 1)])]"
    by (simp add: save_def schema_def match_schema_def createDataFrame_def save_method_def
        save_append_def call_saveAsTable_def location_or_empty_def full_table_location_def
        truthy_def backquote_def example_createDataFrame_def example_defs)
  have b: "save decoded failing_engine
        (dataset_of (example_table\<lparr>dataframe_type := ''pandas'', json_schema := None\<rparr>))
        (PandasDF []) empty_session =
       (Inl (SparkException OtherSparkError),
        empty_session\<lparr>calls := [CreateDataFrame [] None]\<rparr>)"
    by (simp add: save_def schema_def match_schema_def createDataFrame_def failing_engine_def
        example_table_def dataset_of_def empty_session_def)
  show ?thesis
    using a b example_variants_init(2) [of None] example_variants_init(3)
    by (simp add: example_table_def)
qed

text \<open>
  C7, amended. A dataset constructed with the pandas dataframe type, no schema and the
  overwrite mode, saving a pandas frame, asks the engine exactly once for an engine
  dataframe, of the whole frame and with no schema. If the engine raises, save raises its
  exception and makes no other call. Otherwise one more call follows: the overwrite
  handler writes the dataframe the engine built to the full table location in the
  configured format, in overwrite mode and with the option \<^verbatim>\<open>overwriteSchema\<close> set to
  \<^verbatim>\<open>true\<close>.
\<close>

theorem save_pandas_overwrite:
  assumes init: "BaseTableDataset_init BaseTable_init raw md kw = Inr ds"
    and pd: "dataframe_type (the_table ds) = ''pandas''"
    and js: "json_schema (the_table ds) = None"
    and wm: "write_mode (the_table ds) = Some ''overwrite''"
  shows "calls (snd (save fromJson eng ds (PandasDF fr) w)) =
      calls w @ CreateDataFrame fr None #
        (case fst (spark_createDataFrame eng fr None (engine_state w)) of
           Inl e \<Rightarrow> []
         | Inr built \<Rightarrow>
             [SaveAsTable
                (WriteRequest (format (the_table ds)) (Some ''overwrite'')
                   [(''overwriteSchema'', ''true'')] (the (full_table_location (the_table ds)))
                   built)])
    \<and> (\<forall>e. fst (spark_createDataFrame eng fr None (engine_state w)) = Inl e \<longrightarrow>
          fst (save fromJson eng ds (PandasDF fr) w) = Inl (SparkException e))"
proof -
  from init have t: "BaseTable_init (the_table ds) = Inr (the_table ds)"
    by (auto simp: dataset_init_iff)
  have h: "save_method ''overwrite'' = Some Save_overwrite"
    by (simp add: save_method_def)
  obtain r s' where r: "spark_createDataFrame eng fr None (engine_state w) = (r, s')"
    by (cases "spark_createDataFrame eng fr None (engine_state w)")
  let ?w1 = "w\<lparr>engine_state := s', calls := calls w @ [CreateDataFrame fr None]\<rparr>"
  show ?thesis
  proof (cases r)
    case (Inl e)
    have ms: "match_schema fromJson eng ds None (PandasDF fr) w = (Inl (SparkException e), ?w1)"
      using pd r Inl by (simp add: match_schema_def createDataFrame_def)
    have "save fromJson eng ds (PandasDF fr) w = (Inl (SparkException e), ?w1)"
      using wm js ms by (simp add: save_def schema_None)
    then show ?thesis using r Inl by simp
  next
    case (Inr built)
    have ms: "match_schema fromJson eng ds None (PandasDF fr) w = (Inr (SparkDF built), ?w1)"
      using pd r Inr by (simp add: match_schema_def createDataFrame_def)
    have sv: "save fromJson eng ds (PandasDF fr) w =
        call_save_method Save_overwrite eng ds (SparkDF built) ?w1"
      using wm js ms h by (simp add: save_def schema_None)
    have "calls (snd (save fromJson eng ds (PandasDF fr) w)) =
        calls ?w1 @ [SaveAsTable
          (WriteRequest (format (the_table ds)) (Some ''overwrite'')
             [(''overwriteSchema'', ''true'')] (the (full_table_location (the_table ds))) built)]"
      unfolding sv using handler_request [OF h wm, of eng built ?w1] constructed_location(4) [OF t]
      by simp
    then show ?thesis using r Inr by simp
  qed
qed

theorem save_pandas_overwrite_witness:
  "calls (snd (save decoded idle_engine (dataset_of (example_table\<lparr>dataframe_type := ''pandas'',
        json_schema := None\<rparr>)) (PandasDF [(''a'', 1)]) empty_session)) =
     [CreateDataFrame [(''a'', 1)] None,
      SaveAsTable (WriteRequest ''delta'' (Some ''overwrite'') [(''overwriteSchema'', ''true'')]
          [CHR 0x60, CHR ''c'', CHR 0x60, CHR ''.'', CHR 0x60, CHR ''d'', CHR 0x60, CHR ''.'',
           CHR 0x60, CHR ''t'', CHR 0x60]
          [(''a'', 1)])]
   \<and> fst (save decoded failing_engine (dataset_of (example_table\<lparr>dataframe_type := ''pandas'',
        json_schema := None\<rparr>)) (PandasDF []) empty_session) =
     Inl (SparkException OtherSparkError)"
proof -
  let ?ds = "dataset_of (example_table\<lparr>dataframe_type := ''pandas'', json_schema := None\<rparr>)"
  have f: "dataframe_type (the_table ?ds) = ''pandas''" "json_schema (the_table ?ds) = None"
    "write_mode (the_table ?ds) = Some ''overwrite''"
    by (simp_all add: dataset_of_def example_table_def)
  note i = dataset_of_init [OF example_variants_init(2) [of None]]
  have a: "calls (snd (save decoded idle_engine ?ds (PandasDF [(''a'', 1)]) empty_session)) =
     [CreateDataFrame [(''a'', 1)] None,
      SaveAsTable (WriteRequest ''delta'' (Some ''overwrite'') [(''overwriteSchema'', ''true'')]
          [CHR 0x60, CHR ''c'', CHR 0x60, CHR ''.'', CHR 0x60, CHR ''d'', CHR 0x60, CHR ''.'',
           CHR 0x60, CHR ''t'', CHR 0x60]
          [(''a'', 1)])]"
    using save_pandas_overwrite [OF i f, where eng = idle_engine and fr = "[(''a'', 1)]"
        and w = empty_session and fromJson = decoded]
    by (simp add: dataset_of_def example_table_def empty_session_def full_table_location_def
        truthy_def backquote_def idle_engine_def example_createDataFrame_def)
  have b: "fst (save decoded failing_engine ?ds (PandasDF []) empty_session) =
     Inl (SparkException OtherSparkError)"
    using save_pandas_overwrite [OF i f, where eng = failing_engine and fr = "[]"
        and w = empty_session and fromJson = decoded]
    by (simp add: failing_engine_def)
  from a b show ?thesis by simp
qed

text \<open>
  C8, as stated, fails: save does not always reach a handler. With a valid descriptor and
  a write mode, a dataframe that lacks a column of the schema makes the column selection
  raise before the handler is looked up, and nothing is written.
\<close>

theorem save_dispatch_counterexample:
  "BaseTable_init (example_table\<lparr>json_schema := Some example_schema\<rparr>) =
     Inr (example_table\<lparr>json_schema := Some example_schema\<rparr>)
   \<and> write_mode (example_table\<lparr>json_schema := Some example_schema\<rparr>) = Some ''overwrite''
   \<and> save decoded idle_engine (dataset_of (example_table\<lparr>json_schema := Some example_schema\<rparr>))
        (SparkDF [(''a'', 1)]) empty_session =
       (Inl (SparkException AnalysisException), empty_session)"
proof -
  have "save decoded idle_engine (dataset_of (example_table\<lparr>json_schema := Some example_schema\<rparr>))
        (SparkDF [(''a'', 1)]) empty_session =
       (Inl (SparkException AnalysisException), empty_session)"
    by (simp add: save_def schema_def match_schema_def select_def example_select_def by_name_def
        fieldNames_def example_schema_def example_defs)
  then show ?thesis
    using example_variants_init(1) by (simp add: example_table_def)
qed

text \<open>
  C8, amended. With a write mode \<open>m\<close>: save fails with the unsupported-write-mode error
  only if there is no handler for \<open>m\<close>; once the schema is decoded and the data matched
  to it, save is the call of the handler for \<open>m\<close> on the matched data, or that error
  when there is none. For a descriptor that passed validation a handler exists, so save
  never fails with the unsupported-write-mode error and calls the handler whenever the
  decoding and the matching succeed.
\<close>

theorem save_dispatch:
  assumes wm: "write_mode (the_table ds) = Some m"
  shows "(fst (save fromJson eng ds data w) = Inl (DatasetError UnsupportedWriteMode) \<longrightarrow>
            save_method m = None)
    \<and> (\<forall>sch d w1.
          schema fromJson (the_table ds) = Inr sch \<and>
          match_schema fromJson eng ds sch data w = (Inr d, w1) \<longrightarrow>
            save fromJson eng ds data w =
              (case save_method m of
                 None \<Rightarrow> (Inl (DatasetError UnsupportedWriteMode), w1)
               | Some h \<Rightarrow> call_save_method h eng ds d w1))
    \<and> (BaseTable_init (the_table ds) = Inr (the_table ds) \<longrightarrow>
          save_method m \<noteq> None \<and>
          fst (save fromJson eng ds data w) \<noteq> Inl (DatasetError UnsupportedWriteMode))"
proof -
  have only_if: "save_method m = None"
    if "fst (save fromJson eng ds data w) = Inl (DatasetError UnsupportedWriteMode)"
  proof (rule ccontr)
    assume "save_method m \<noteq> None"
    then obtain h where h: "save_method m = Some h" by blast
    show False
    proof (cases "schema fromJson (the_table ds)")
      case (Inl e)
      then show False
        using that wm schema_not_unsupported [of fromJson "the_table ds"] by (simp add: save_def)
    next
      case (Inr sch)
      obtain r w1 where r: "match_schema fromJson eng ds sch data w = (r, w1)"
        by (cases "match_schema fromJson eng ds sch data w")
      show False
      proof (cases r)
        case (Inl e)
        then show False
          using that wm Inr r match_schema_error [of fromJson eng ds sch data w]
          by (simp add: save_def)
      next
        case (Inr d)
        then show False
          using that wm \<open>schema fromJson (the_table ds) = Inr sch\<close> r h
            call_save_method_error [of h eng ds d w1 UnsupportedWriteMode]
          by (simp add: save_def)
      qed
    qed
  qed
  have dispatch: "save fromJson eng ds data w =
              (case save_method m of
                 None \<Rightarrow> (Inl (DatasetError UnsupportedWriteMode), w1)
               | Some h \<Rightarrow> call_save_method h eng ds d w1)"
    if "schema fromJson (the_table ds) = Inr sch \<and>
          match_schema fromJson eng ds sch data w = (Inr d, w1)" for sch d w1
    using that wm by (simp add: save_def)
  have valid: "save_method m \<noteq> None \<and>
          fst (save fromJson eng ds data w) \<noteq> Inl (DatasetError UnsupportedWriteMode)"
    if "BaseTable_init (the_table ds) = Inr (the_table ds)"
    using save_method_constructed [OF that wm] only_if by auto
  show ?thesis
    using only_if dispatch valid by blast
qed

theorem save_dispatch_witness:
  "save decoded idle_engine (dataset_of (example_table\<lparr>write_mode := Some ''upsert''\<rparr>))
      (SparkDF [(''a'', 1)]) empty_session =
     (Inl (DatasetError UnsupportedWriteMode), empty_session)
   \<and> save_method ''overwrite'' \<noteq> None
   \<and> fst (save decoded idle_engine (dataset_of example_table) (SparkDF [(''a'', 1)]) empty_session)
       \<noteq> Inl (DatasetError UnsupportedWriteMode)"
proof -
  let ?u = "dataset_of (example_table\<lparr>write_mode := Some ''upsert''\<rparr>)"
  have wu: "write_mode (the_table ?u) = Some ''upsert''"
    and wo: "write_mode (the_table (dataset_of example_table)) = Some ''overwrite''"
    by (simp_all add: dataset_of_def example_table_def)
  have prep: "schema decoded (the_table ?u) = Inr None \<and>
      match_schema decoded idle_engine ?u None (SparkDF [(''a'', 1)]) empty_session =
        (Inr (SparkDF [(''a'', 1)]), empty_session)"
    by (simp add: schema_def match_schema_def dataset_of_def example_table_def)
  have no: "save_method ''upsert'' = None"
    by (simp add: save_method_def)
  have ok: "BaseTable_init (the_table (dataset_of example_table)) =
      Inr (the_table (dataset_of example_table))"
    using example_table_init by (simp add: dataset_of_def)
  have "save decoded idle_engine ?u (SparkDF [(''a'', 1)]) empty_session =
     (Inl (DatasetError UnsupportedWriteMode), empty_session)"
    using save_dispatch [OF wu, of decoded idle_engine "SparkDF [(''a'', 1)]" empty_session]
      prep no by simp
  moreover have "save_method ''overwrite'' \<noteq> None
   \<and> fst (save decoded idle_engine (dataset_of example_table) (SparkDF [(''a'', 1)]) empty_session)
       \<noteq> Inl (DatasetError UnsupportedWriteMode)"
    using save_dispatch [OF wo, of decoded idle_engine "SparkDF [(''a'', 1)]" empty_session] ok
    by simp
  ultimately show ?thesis by simp
qed

end
